theory Spec2Isabelle
  imports Complex_Main
begin

section \<open>The relational store of the storefront\<close>

text \<open>
  The storefront keeps its data in relational tables (shared/schema.ts) and reaches them
  through the methods of \<open>DatabaseStorage\<close> (server/storage.ts). A table is modelled as
  the list of its rows in insertion order, a serial primary key as a counter kept beside
  the table, and a nullable column as an option. A query without an ordering clause is
  read in table order, so that \<open>const [row] = await db.select()...\<close> is the first
  matching row, or nothing.

  The columns \<open>createdAt\<close> and \<open>updatedAt\<close> are left out: no modelled function reads
  them. Of the constraints of the schema the unique ones that a modelled insert can
  violate are modelled as failures of the insert; foreign keys are taken to hold for the
  rows that are inserted, and a number is taken to be in the range of its column.
\<close>

subsection \<open>Rows\<close>

record product =
  p_id :: int
  p_name :: string
  p_slug :: string
  p_description :: string
  p_price :: real
  p_originalPrice :: "real option"
  p_image :: "string option"
  p_inventory :: int
  p_featured :: "bool option"
  p_isNew :: "bool option"
  p_rating :: "real option"
  p_supplierSku :: "string option"
  p_categoryId :: "int option"

record productCategory =
  pc_id :: int
  pc_productId :: int
  pc_categoryId :: int

record cart =
  cart_id :: int
  cart_userId :: "int option"
  cart_sessionId :: "string option"

record cartItem =
  ci_id :: int
  ci_cartId :: int
  ci_productId :: int
  ci_quantity :: int

record order =
  o_id :: int
  o_userId :: int
  o_status :: string
  o_total :: real
  o_shippingAddressId :: "int option"
  o_billingAddressId :: "int option"
  o_paymentIntentId :: "string option"
  o_paymentStatus :: string

record orderItem =
  oi_id :: int
  oi_orderId :: int
  oi_productId :: int
  oi_name :: string
  oi_price :: real
  oi_quantity :: int

record address =
  a_id :: int
  a_userId :: int
  a_addressLine1 :: string
  a_addressLine2 :: "string option"
  a_city :: string
  a_state :: string
  a_postalCode :: string
  a_country :: string
  a_isDefault :: "bool option"
  a_type :: string

record referral =
  r_id :: int
  r_referrerId :: int
  r_code :: string
  r_usageCount :: int
  r_maxUses :: "int option"
  r_expiresAt :: "int option"

record referredUser =
  ru_id :: int
  ru_referralId :: int
  ru_userId :: int

record user =
  u_id :: int
  u_email :: string
  u_username :: string
  u_role :: string

text \<open>The database: the tables and the next value of each serial sequence.\<close>

record db =
  products :: "product list"
  productCategories :: "productCategory list"
  carts :: "cart list"
  cartItems :: "cartItem list"
  orders :: "order list"
  orderItems :: "orderItem list"
  addresses :: "address list"
  referrals :: "referral list"
  referredUsers :: "referredUser list"
  products_seq :: int
  productCategories_seq :: int
  carts_seq :: int
  cartItems_seq :: int
  orders_seq :: int
  orderItems_seq :: int
  addresses_seq :: int
  referrals_seq :: int
  referredUsers_seq :: int

definition empty_db :: db where
  "empty_db = \<lparr>products = [], productCategories = [], carts = [], cartItems = [],
     orders = [], orderItems = [], addresses = [], referrals = [], referredUsers = [],
     products_seq = 1, productCategories_seq = 1, carts_seq = 1, cartItems_seq = 1,
     orders_seq = 1, orderItems_seq = 1, addresses_seq = 1, referrals_seq = 1,
     referredUsers_seq = 1\<rparr>"

subsection \<open>Query helpers\<close>

text \<open>\<open>const [row] = rows\<close>: the first row, or undefined.\<close>

fun first_row :: "'a list \<Rightarrow> 'a option" where
  "first_row [] = None"
| "first_row (x # xs) = Some x"

text \<open>\<open>UPDATE ... SET ... WHERE\<close>: every row that satisfies the condition is rewritten
  in place; \<open>.returning()\<close> gives the rewritten rows.\<close>

definition update_where :: "('a \<Rightarrow> bool) \<Rightarrow> ('a \<Rightarrow> 'a) \<Rightarrow> 'a list \<Rightarrow> 'a list" where
  "update_where P f rows = map (\<lambda>r. if P r then f r else r) rows"

definition returning :: "('a \<Rightarrow> bool) \<Rightarrow> ('a \<Rightarrow> 'a) \<Rightarrow> 'a list \<Rightarrow> 'a list" where
  "returning P f rows = map f (filter P rows)"

text \<open>JavaScript truthiness of a nullable number and of an optional string.\<close>

definition truthy_num :: "int option \<Rightarrow> bool" where
  "truthy_num n = (case n of None \<Rightarrow> False | Some k \<Rightarrow> k \<noteq> 0)"

definition truthy_str :: "string option \<Rightarrow> bool" where
  "truthy_str s = (case s of None \<Rightarrow> False | Some t \<Rightarrow> t \<noteq> [])"

subsection \<open>Cart methods of DatabaseStorage\<close>

record InsertCart =
  ic_userId :: "int option"
  ic_sessionId :: "string option"

record InsertCartItem =
  ici_cartId :: int
  ici_productId :: int
  ici_quantity :: "int option"

definition getCart :: "db \<Rightarrow> int option \<Rightarrow> string option \<Rightarrow> cart option" where
  "getCart d userId sessionId =
     (if truthy_num userId
      then first_row (filter (\<lambda>c. cart_userId c = userId) (carts d))
      else if truthy_str sessionId
      then first_row (filter (\<lambda>c. cart_sessionId c = sessionId) (carts d))
      else None)"

definition createCart :: "db \<Rightarrow> InsertCart \<Rightarrow> db \<times> cart" where
  "createCart d cartData =
     (let c = \<lparr>cart_id = carts_seq d, cart_userId = ic_userId cartData,
                cart_sessionId = ic_sessionId cartData\<rparr>
      in (d\<lparr>carts := carts d @ [c], carts_seq := carts_seq d + 1\<rparr>, c))"

text \<open>\<open>getCartItems\<close> left-joins the products and drops the items whose product is
  missing; a result is the cart item with its product.\<close>

definition getProductById :: "db \<Rightarrow> int \<Rightarrow> product option" where
  "getProductById d i = first_row (filter (\<lambda>p. p_id p = i) (products d))"

definition getCartItems :: "db \<Rightarrow> int \<Rightarrow> (cartItem \<times> product) list" where
  "getCartItems d cartId =
     concat (map (\<lambda>i. map (\<lambda>p. (i, p)) (filter (\<lambda>p. p_id p = ci_productId i) (products d)))
                 (filter (\<lambda>i. ci_cartId i = cartId) (cartItems d)))"

definition addItemToCart :: "db \<Rightarrow> InsertCartItem \<Rightarrow> db \<times> cartItem option" where
  "addItemToCart d itemData =
     (case first_row (filter (\<lambda>i. ci_cartId i = ici_cartId itemData \<and>
                                   ci_productId i = ici_productId itemData) (cartItems d)) of
        Some existingItem \<Rightarrow>
          (let q = ci_quantity existingItem +
                     (case ici_quantity itemData of None \<Rightarrow> 1 | Some n \<Rightarrow> n);
               hit = (\<lambda>i. ci_id i = ci_id existingItem);
               set_q = (\<lambda>i. i\<lparr>ci_quantity := q\<rparr>)
           in (d\<lparr>cartItems := update_where hit set_q (cartItems d)\<rparr>,
               first_row (returning hit set_q (cartItems d))))
      | None \<Rightarrow>
          (let newItem = \<lparr>ci_id = cartItems_seq d, ci_cartId = ici_cartId itemData,
                           ci_productId = ici_productId itemData,
                           ci_quantity = (case ici_quantity itemData of None \<Rightarrow> 1 | Some n \<Rightarrow> n)\<rparr>
           in (d\<lparr>cartItems := cartItems d @ [newItem], cartItems_seq := cartItems_seq d + 1\<rparr>,
               Some newItem)))"

definition updateCartItemQuantity :: "db \<Rightarrow> int \<Rightarrow> int \<Rightarrow> db \<times> cartItem option" where
  "updateCartItemQuantity d i quantity =
     (let hit = (\<lambda>r. ci_id r = i); set_q = (\<lambda>r. r\<lparr>ci_quantity := quantity\<rparr>)
      in (d\<lparr>cartItems := update_where hit set_q (cartItems d)\<rparr>,
          first_row (returning hit set_q (cartItems d))))"

definition removeCartItem :: "db \<Rightarrow> int \<Rightarrow> db \<times> bool" where
  "removeCartItem d i =
     (d\<lparr>cartItems := filter (\<lambda>r. ci_id r \<noteq> i) (cartItems d)\<rparr>,
      filter (\<lambda>r. ci_id r = i) (cartItems d) \<noteq> [])"

definition clearCart :: "db \<Rightarrow> int \<Rightarrow> db \<times> bool" where
  "clearCart d cartId =
     (d\<lparr>cartItems := filter (\<lambda>r. ci_cartId r \<noteq> cartId) (cartItems d)\<rparr>, True)"

subsection \<open>Numbers\<close>

text \<open>
  A number of a request body is modelled by the real number that its notation in the JSON
  text denotes (19.99 is the real 1999/100). JavaScript holds it as the nearest double,
  and a \<open>real\<close> column of the database holds a number in single precision. Both are
  roundings of a real to a binary format, to the nearest value of the format and, at a
  tie, to the one whose last digit is even.

  \<open>round_digits b n\<close> rounds a real to \<open>n\<close> significant digits in base \<open>b\<close>: a positive
  number is divided or multiplied by \<open>b\<close> until it lies between \<open>b ^ (n - 1)\<close> and
  \<open>b ^ n\<close>, rounded to an integer there, and scaled back.
\<close>

definition round_half_even :: "real \<Rightarrow> int" where
  "round_half_even x =
     (let f = \<lfloor>x\<rfloor>; r = x - of_int f
      in if r < 1 / 2 then f else if 1 / 2 < r then f + 1 else if even f then f else f + 1)"

function scale_down :: "real \<Rightarrow> real \<Rightarrow> real \<Rightarrow> real" where
  "scale_down b hi x =
     (if 2 \<le> b \<and> b \<le> hi \<and> hi \<le> x then b * scale_down b hi (x / b)
      else of_int (round_half_even x))"
  by pat_completeness auto
termination
proof (relation "measure (\<lambda>(b, hi, x). nat \<lfloor>x\<rfloor>)")
  show "wf (measure (\<lambda>(b, hi, x). nat \<lfloor>x\<rfloor>))" by simp
next
  fix b hi x :: real
  assume a: "2 \<le> b \<and> b \<le> hi \<and> hi \<le> x"
  then have x: "2 \<le> x" by simp
  from a x have "x / b \<le> x / 2" by (intro divide_left_mono) simp_all
  also from x have "x / 2 \<le> x - 1" by simp
  finally have "\<lfloor>x / b\<rfloor> \<le> \<lfloor>x - 1\<rfloor>" by (rule floor_mono)
  then have "\<lfloor>x / b\<rfloor> < \<lfloor>x\<rfloor>" by simp
  moreover from x have "0 < \<lfloor>x\<rfloor>" by simp
  ultimately show "((b, hi, x / b), (b, hi, x)) \<in> measure (\<lambda>(b, hi, x). nat \<lfloor>x\<rfloor>)" by simp
qed

function scale_up :: "real \<Rightarrow> real \<Rightarrow> real \<Rightarrow> real" where
  "scale_up b lo x =
     (if 2 \<le> b \<and> 0 < x \<and> x < lo then scale_up b lo (x * b) / b
      else of_int (round_half_even x))"
  by pat_completeness auto
termination
proof (relation "measure (\<lambda>(b, lo, x). nat \<lfloor>lo / x\<rfloor>)")
  show "wf (measure (\<lambda>(b, lo, x). nat \<lfloor>lo / x\<rfloor>))" by simp
next
  fix b lo x :: real
  assume a: "2 \<le> b \<and> 0 < x \<and> x < lo"
  define y where "y = lo / x"
  from a have y: "1 < y" by (simp add: y_def)
  have "lo / (x * b) = y / b" by (simp add: y_def)
  also from a y have "y / b \<le> y / 2" by (intro divide_left_mono) simp_all
  finally have le: "lo / (x * b) \<le> y / 2" .
  from a y have nn: "0 \<le> lo / (x * b)" by simp
  have "\<lfloor>lo / (x * b)\<rfloor> < \<lfloor>y\<rfloor>"
  proof (cases "y < 2")
    case True
    with le have "lo / (x * b) < 1" by linarith
    with nn have "\<lfloor>lo / (x * b)\<rfloor> = 0" by (simp add: floor_eq_iff)
    moreover from y have "1 \<le> \<lfloor>y\<rfloor>" by (simp add: le_floor_iff)
    ultimately show ?thesis by simp
  next
    case False
    with le have "lo / (x * b) \<le> y - 1" by linarith
    then have "\<lfloor>lo / (x * b)\<rfloor> \<le> \<lfloor>y - 1\<rfloor>" by (rule floor_mono)
    then show ?thesis by simp
  qed
  moreover from y have "0 < \<lfloor>y\<rfloor>" by (simp add: less_floor_iff)
  ultimately show "((b, lo, x * b), (b, lo, x)) \<in> measure (\<lambda>(b, lo, x). nat \<lfloor>lo / x\<rfloor>)"
    by (simp add: y_def[symmetric])
qed

declare scale_down.simps [simp del]

declare scale_up.simps [simp del]

definition round_digits :: "real \<Rightarrow> nat \<Rightarrow> real \<Rightarrow> real" where
  "round_digits b n x =
     (if x = 0 then 0
      else if x < 0
      then - (if b ^ n \<le> - x then scale_down b (b ^ n) (- x) else scale_up b (b ^ (n - 1)) (- x))
      else (if b ^ n \<le> x then scale_down b (b ^ n) x else scale_up b (b ^ (n - 1)) x))"

text \<open>
  A binary format of IEEE 754 has \<open>p\<close> significant bits down to its smallest normal
  number \<open>1 / 2 ^ e\<close>; below it the values of the format are the multiples of
  \<open>1 / 2 ^ (e + p - 1)\<close>. A double has 53 bits and the smallest normal number
  \<open>1 / 2 ^ 1022\<close>, single precision 24 bits and \<open>1 / 2 ^ 126\<close>. The formats are bounded
  above: a rounding that reaches \<open>2 ^ 1024\<close> in a double, or \<open>2 ^ 128\<close> in single
  precision, is \<open>Infinity\<close> there and not a number; \<open>to_ieee\<close> is the rounding of the
  format for every real whose rounding is below that bound.
\<close>

definition to_ieee :: "nat \<Rightarrow> nat \<Rightarrow> real \<Rightarrow> real" where
  "to_ieee p e x =
     (if \<bar>x\<bar> < 1 / 2 ^ e
      then of_int (round_half_even (x * 2 ^ (e + p - 1))) / 2 ^ (e + p - 1)
      else round_digits 2 p x)"

definition to_double :: "real \<Rightarrow> real" where
  "to_double = to_ieee 53 1022"

definition finite_double :: "real \<Rightarrow> bool" where
  "finite_double x \<longleftrightarrow> \<bar>x\<bar> < 2 ^ 1024"

definition to_single :: "real \<Rightarrow> real" where
  "to_single = to_ieee 24 126"

definition finite_single :: "real \<Rightarrow> bool" where
  "finite_single x \<longleftrightarrow> \<bar>x\<bar> < 2 ^ 128"

text \<open>The product of two doubles in JavaScript: the product of the reals, rounded to a
  double.\<close>

definition js_multiply :: "real \<Rightarrow> real \<Rightarrow> real" where
  "js_multiply a b = to_double (a * b)"

text \<open>
  \<open>Number.prototype.toString\<close>, by which the database driver writes a double into a
  query: the decimal notation with the fewest significant digits that reads back as the
  same double and, among those, the one nearest to the double. Seventeen digits are
  enough for every double. The result is the real that the notation denotes.
\<close>

fun shortest :: "nat list \<Rightarrow> real \<Rightarrow> real" where
  "shortest [] x = x"
| "shortest (n # ns) x =
     (if to_double (round_digits 10 n x) = x then round_digits 10 n x else shortest ns x)"

definition Number_toString :: "real \<Rightarrow> real" where
  "Number_toString x = shortest [1, 2, 3, 4, 5, 6, 7, 8, 9, 10, 11, 12, 13, 14, 15, 16, 17] x"

text \<open>
  What a \<open>real\<close> column holds after the double \<open>x\<close> has been written to it: the database
  reads the notation that the driver has written and rounds it to single precision. It
  refuses a number whose rounding is not finite, and one that is not 0 and rounds to 0.
\<close>

definition real_column :: "real \<Rightarrow> real" where
  "real_column x = to_single (Number_toString x)"

definition real_column_accepts :: "real \<Rightarrow> bool" where
  "real_column_accepts x \<longleftrightarrow>
     finite_double x \<and> finite_single (real_column x) \<and> (real_column x = 0 \<longrightarrow> x = 0)"

subsection \<open>Requests and responses\<close>

text \<open>
  A request body is the object that the JSON body parser leaves in \<open>req.body\<close>: a finite
  map from keys to JSON values; a key that is absent reads as \<open>undefined\<close>. A number
  \<open>JNum x\<close> stands for the number whose notation in the JSON text denotes \<open>x\<close>; the
  value that JavaScript holds for it is the double \<open>to_double x\<close>, which is \<open>x\<close> itself
  for the ids and quantities that most routes read (integers below \<open>2 ^ 53\<close>). A JSON
  text holds no NaN.
\<close>

datatype json =
  JNull
| JBool bool
| JNum real
| JStr string
| JArr "json list"
| JObj "(string \<times> json) list"

type_synonym body = "string \<Rightarrow> json option"

record request =
  req_user :: "user option"
  req_sessionId :: "string option"
  req_body :: body

text \<open>\<open>req.isAuthenticated()\<close> holds exactly when the session carries a user.\<close>

definition isAuthenticated :: "request \<Rightarrow> bool" where
  "isAuthenticated req = (req_user req \<noteq> None)"

text \<open>
  A response is \<open>res.status(n).json(data)\<close> (\<open>Reply\<close>) or
  \<open>res.status(n).json({ message })\<close> (\<open>Failure\<close>). The message of a schema
  validation error is produced by the validation library and stands here as the fixed
  text \<open>ZodError\<close>.
\<close>

datatype 'a response = Reply nat 'a | Failure nat string

fun status :: "'a response \<Rightarrow> nat" where
  "status (Reply n x) = n"
| "status (Failure n m) = n"

text \<open>The fields of the insert schemas, as the schema library validates them: an
  integer column accepts a whole number, a real column a number, a text column a
  string; a nullable column or one with a default may be absent, a nullable one may
  also be null. The result is \<open>None\<close> when validation throws.\<close>

definition zod_int :: "json option \<Rightarrow> int option" where
  "zod_int v = (case v of
       Some (JNum x) \<Rightarrow> if of_int \<lfloor>x\<rfloor> = x then Some \<lfloor>x\<rfloor> else None
     | _ \<Rightarrow> None)"

definition zod_number :: "json option \<Rightarrow> real option" where
  "zod_number v = (case v of Some (JNum x) \<Rightarrow> Some x | _ \<Rightarrow> None)"

definition zod_int_optional :: "json option \<Rightarrow> int option option" where
  "zod_int_optional v = (case v of
       None \<Rightarrow> Some None
     | Some (JNum x) \<Rightarrow> if of_int \<lfloor>x\<rfloor> = x then Some (Some \<lfloor>x\<rfloor>) else None
     | _ \<Rightarrow> None)"

definition zod_int_nullable :: "json option \<Rightarrow> int option option" where
  "zod_int_nullable v = (case v of
       None \<Rightarrow> Some None
     | Some JNull \<Rightarrow> Some None
     | Some (JNum x) \<Rightarrow> if of_int \<lfloor>x\<rfloor> = x then Some (Some \<lfloor>x\<rfloor>) else None
     | _ \<Rightarrow> None)"

definition zod_string_nullable :: "json option \<Rightarrow> string option option" where
  "zod_string_nullable v = (case v of
       None \<Rightarrow> Some None
     | Some JNull \<Rightarrow> Some None
     | Some (JStr s) \<Rightarrow> Some (Some s)
     | _ \<Rightarrow> None)"

subsection \<open>Order methods of DatabaseStorage\<close>

record InsertOrder =
  io_userId :: int
  io_total :: real
  io_shippingAddressId :: "int option"
  io_billingAddressId :: "int option"
  io_paymentIntentId :: "string option"

record InsertOrderItem =
  ioi_orderId :: int
  ioi_productId :: int
  ioi_name :: string
  ioi_price :: real
  ioi_quantity :: int

definition insertOrderSchema_parse :: "body \<Rightarrow> InsertOrder option" where
  "insertOrderSchema_parse b =
     (case (zod_int (b ''userId''), zod_number (b ''total''),
            zod_int_nullable (b ''shippingAddressId''),
            zod_int_nullable (b ''billingAddressId''),
            zod_string_nullable (b ''paymentIntentId'')) of
        (Some uid, Some t, Some sa, Some ba, Some pay) \<Rightarrow>
          Some \<lparr>io_userId = uid, io_total = t, io_shippingAddressId = sa,
                io_billingAddressId = ba, io_paymentIntentId = pay\<rparr>
      | _ \<Rightarrow> None)"

definition insertCartItemSchema_parse :: "body \<Rightarrow> InsertCartItem option" where
  "insertCartItemSchema_parse b =
     (case (zod_int (b ''cartId''), zod_int (b ''productId''),
            zod_int_optional (b ''quantity'')) of
        (Some c, Some p, Some q) \<Rightarrow>
          Some \<lparr>ici_cartId = c, ici_productId = p, ici_quantity = q\<rparr>
      | _ \<Rightarrow> None)"

text \<open>\<open>createOrder\<close> returns the row as the database has stored it. The column
  \<open>total\<close> of the orders table is a \<open>real\<close> column: the total of \<open>orderData\<close> is the
  double that JavaScript holds for the number of the body, and the row holds what the
  column makes of it. A single-precision number is identified with the real that it is,
  whatever notation the driver prints it in when the row is read back. The prices of
  products and order items are \<open>real\<close> columns too; a price of the model stands for the
  number that its column holds, and is copied between rows as it is.\<close>

definition createOrder :: "db \<Rightarrow> InsertOrder \<Rightarrow> db \<times> order" where
  "createOrder d orderData =
     (let ord = \<lparr>o_id = orders_seq d, o_userId = io_userId orderData,
                  o_status = ''pending'', o_total = real_column (to_double (io_total orderData)),
                  o_shippingAddressId = io_shippingAddressId orderData,
                  o_billingAddressId = io_billingAddressId orderData,
                  o_paymentIntentId = io_paymentIntentId orderData,
                  o_paymentStatus = ''pending''\<rparr>
      in (d\<lparr>orders := orders d @ [ord], orders_seq := orders_seq d + 1\<rparr>, ord))"

text \<open>\<open>getOrders\<close> sorts by creation time, newest first; rows are kept in insertion
  order, so that is the reverse of the table order.\<close>

definition getOrders :: "db \<Rightarrow> int \<Rightarrow> order list" where
  "getOrders d userId = rev (filter (\<lambda>r. o_userId r = userId) (orders d))"

definition getOrderItems :: "db \<Rightarrow> int \<Rightarrow> orderItem list" where
  "getOrderItems d orderId = filter (\<lambda>r. oi_orderId r = orderId) (orderItems d)"

definition createOrderItem :: "db \<Rightarrow> InsertOrderItem \<Rightarrow> db \<times> orderItem" where
  "createOrderItem d itemData =
     (let it = \<lparr>oi_id = orderItems_seq d, oi_orderId = ioi_orderId itemData,
                 oi_productId = ioi_productId itemData, oi_name = ioi_name itemData,
                 oi_price = ioi_price itemData, oi_quantity = ioi_quantity itemData\<rparr>
      in (d\<lparr>orderItems := orderItems d @ [it], orderItems_seq := orderItems_seq d + 1\<rparr>, it))"

subsection \<open>The cart and order routes\<close>

text \<open>The loop of POST /api/orders over the items of the cart: one order item per
  cart item, with the name and the price of the joined product.\<close>

fun createOrderItems :: "db \<Rightarrow> int \<Rightarrow> (cartItem \<times> product) list \<Rightarrow> db" where
  "createOrderItems d orderId [] = d"
| "createOrderItems d orderId (item # items) =
     createOrderItems
       (fst (createOrderItem d
          \<lparr>ioi_orderId = orderId, ioi_productId = p_id (snd item),
           ioi_name = p_name (snd item), ioi_price = p_price (snd item),
           ioi_quantity = ci_quantity (fst item)\<rparr>))
       orderId items"

definition post_orders :: "db \<Rightarrow> request \<Rightarrow> db \<times> (order \<times> orderItem list) response" where
  "post_orders d req =
     (case req_user req of
        None \<Rightarrow> (d, Failure 401 ''Authentication required'')
      | Some u \<Rightarrow>
          (case insertOrderSchema_parse ((req_body req)(''userId'' \<mapsto> JNum (of_int (u_id u)))) of
             None \<Rightarrow> (d, Failure 400 ''ZodError'')
           | Some orderData \<Rightarrow>
               (let (d1, ord) = createOrder d orderData;
                    d3 = (case getCart d1 (Some (u_id u)) None of
                            None \<Rightarrow> d1
                          | Some c \<Rightarrow>
                              (let items = getCartItems d1 (cart_id c);
                                   d2 = createOrderItems d1 (o_id ord) items
                               in fst (clearCart d2 (cart_id c))))
                in (d3, Reply 201 (ord, getOrderItems d3 (o_id ord))))))"

text \<open>POST /api/cart: find or create the cart of the user (or of the guest session),
  then add the item of the body to it.\<close>

definition post_cart :: "db \<Rightarrow> request \<Rightarrow> db \<times> (int \<times> (cartItem \<times> product) list) response" where
  "post_cart d req =
     (let found =
            (case req_user req of
               Some u \<Rightarrow>
                 (case getCart d (Some (u_id u)) None of
                    Some c \<Rightarrow> Some (d, c)
                  | None \<Rightarrow> Some (createCart d \<lparr>ic_userId = Some (u_id u), ic_sessionId = None\<rparr>))
             | None \<Rightarrow>
                 if truthy_str (req_sessionId req)
                 then (case getCart d None (req_sessionId req) of
                         Some c \<Rightarrow> Some (d, c)
                       | None \<Rightarrow>
                           Some (createCart d \<lparr>ic_userId = None, ic_sessionId = req_sessionId req\<rparr>))
                 else None)
      in case found of
           None \<Rightarrow> (d, Failure 400 ''Failed to identify user or session'')
         | Some (d1, c) \<Rightarrow>
             (case insertCartItemSchema_parse
                     ((req_body req)(''cartId'' \<mapsto> JNum (of_int (cart_id c)))) of
                None \<Rightarrow> (d1, Failure 400 ''ZodError'')
              | Some itemData \<Rightarrow>
                  (let d2 = fst (addItemToCart d1 itemData)
                   in (d2, Reply 201 (cart_id c, getCartItems d2 (cart_id c))))))"

text \<open>PUT /api/cart/items/:id. The body's quantity is taken to be absent or a whole
  number, as the client sends it.\<close>

definition put_cart_item ::
  "db \<Rightarrow> request \<Rightarrow> int \<Rightarrow> int option \<Rightarrow> db \<times> (int \<times> (cartItem \<times> product) list) response" where
  "put_cart_item d req itemId quantity =
     (case quantity of
        None \<Rightarrow> (d, Failure 400 ''Valid quantity required'')
      | Some q \<Rightarrow>
          if q < 1 then (d, Failure 400 ''Valid quantity required'')
          else
            (let d1 = fst (updateCartItemQuantity d itemId q);
                 found = (case req_user req of
                            Some u \<Rightarrow> getCart d1 (Some (u_id u)) None
                          | None \<Rightarrow>
                              if truthy_str (req_sessionId req)
                              then getCart d1 None (req_sessionId req) else None)
             in case found of
                  None \<Rightarrow> (d1, Failure 404 ''Cart not found'')
                | Some c \<Rightarrow> (d1, Reply 200 (cart_id c, getCartItems d1 (cart_id c)))))"

text \<open>The decrement and increment controls of the cart page (client).\<close>

definition decrement_request :: "int \<Rightarrow> int" where
  "decrement_request quantity = max 1 (quantity - 1)"

definition decrement_disabled :: "bool \<Rightarrow> int \<Rightarrow> bool" where
  "decrement_disabled isUpdatingCart quantity = (isUpdatingCart \<or> quantity \<le> 1)"

definition increment_request :: "int \<Rightarrow> int" where
  "increment_request quantity = quantity + 1"

subsection \<open>Product methods of DatabaseStorage and the catalogue sync\<close>

text \<open>
  An optional property of a JavaScript object that may also be null: absent
  (\<open>undefined\<close>), \<open>null\<close>, or a value. An insert stores NULL for the first two (or the
  column default for an absent one); an update leaves the column alone when the property
  is absent.
\<close>

datatype 'a nullable = Undefined | Null | Val 'a

fun inserted :: "'a nullable \<Rightarrow> 'a option" where
  "inserted Undefined = None"
| "inserted Null = None"
| "inserted (Val x) = Some x"

fun inserted_default :: "'a \<Rightarrow> 'a nullable \<Rightarrow> 'a option" where
  "inserted_default dflt Undefined = Some dflt"
| "inserted_default dflt Null = None"
| "inserted_default dflt (Val x) = Some x"

fun set_nullable :: "'a nullable \<Rightarrow> 'a option \<Rightarrow> 'a option" where
  "set_nullable Undefined old = old"
| "set_nullable Null old = None"
| "set_nullable (Val x) old = Some x"

fun set_column :: "'a option \<Rightarrow> 'a \<Rightarrow> 'a" where
  "set_column None old = old"
| "set_column (Some x) old = x"

fun truthy_nullable_bool :: "bool nullable \<Rightarrow> bool" where
  "truthy_nullable_bool (Val b) = b"
| "truthy_nullable_bool _ = False"

datatype db_error = UniqueViolation

record InsertProduct =
  ip_name :: string
  ip_slug :: string
  ip_description :: string
  ip_price :: real
  ip_originalPrice :: "real nullable"
  ip_image :: "string nullable"
  ip_inventory :: "int option"
  ip_featured :: "bool nullable"
  ip_isNew :: "bool nullable"
  ip_supplierSku :: "string nullable"
  ip_categoryId :: "int nullable"
  ip_categories :: "int list option"

text \<open>\<open>Partial<InsertProduct>\<close>: every property may be absent.\<close>

record PartialProduct =
  pp_name :: "string option"
  pp_slug :: "string option"
  pp_description :: "string option"
  pp_price :: "real option"
  pp_originalPrice :: "real nullable"
  pp_image :: "string nullable"
  pp_inventory :: "int option"
  pp_featured :: "bool nullable"
  pp_isNew :: "bool nullable"
  pp_supplierSku :: "string nullable"
  pp_categoryId :: "int nullable"
  pp_categories :: "int list option"

definition getProductBySupplierSku :: "db \<Rightarrow> string \<Rightarrow> product option" where
  "getProductBySupplierSku d sku =
     first_row (filter (\<lambda>p. p_supplierSku p = Some sku) (products d))"

text \<open>The unique constraints of the products table (slug, and supplierSku where it is
  not NULL), as an insert and an update of the rows with one id meet them.\<close>

definition slug_taken :: "product list \<Rightarrow> string \<Rightarrow> bool" where
  "slug_taken rows s = (s \<in> set (map p_slug rows))"

definition sku_taken :: "product list \<Rightarrow> string option \<Rightarrow> bool" where
  "sku_taken rows s = (s \<noteq> None \<and> s \<in> set (map p_supplierSku rows))"

definition update_collides :: "product list \<Rightarrow> int \<Rightarrow> PartialProduct \<Rightarrow> bool" where
  "update_collides rows i productData =
     (let others = filter (\<lambda>p. p_id p \<noteq> i) rows;
          several = (1 < length (filter (\<lambda>p. p_id p = i) rows));
          none = (filter (\<lambda>p. p_id p = i) rows = [])
      in \<not> none \<and>
         ((case pp_slug productData of None \<Rightarrow> False
           | Some s \<Rightarrow> slug_taken others s \<or> several) \<or>
          (case pp_supplierSku productData of Val s \<Rightarrow> sku_taken others (Some s) \<or> several
           | _ \<Rightarrow> False)))"

text \<open>The association rows of one insert, numbered from the sequence; the join table
  has a unique index on (productId, categoryId).\<close>

fun category_rows :: "int \<Rightarrow> int \<Rightarrow> int list \<Rightarrow> productCategory list" where
  "category_rows n productId [] = []"
| "category_rows n productId (c # cs) =
     \<lparr>pc_id = n, pc_productId = productId, pc_categoryId = c\<rparr> # category_rows (n + 1) productId cs"

definition insert_productCategories :: "db \<Rightarrow> int \<Rightarrow> int list \<Rightarrow> db \<times> (db_error + unit)" where
  "insert_productCategories d productId categoryIds =
     (let rows = productCategories d @ category_rows (productCategories_seq d) productId categoryIds;
          d1 = d\<lparr>productCategories_seq := productCategories_seq d + int (length categoryIds)\<rparr>
      in if distinct (map (\<lambda>r. (pc_productId r, pc_categoryId r)) rows)
         then (d1\<lparr>productCategories := rows\<rparr>, Inr ())
         else (d1, Inl UniqueViolation))"

definition createProduct :: "db \<Rightarrow> InsertProduct \<Rightarrow> db \<times> (db_error + product)" where
  "createProduct d productData =
     (let row = \<lparr>p_id = products_seq d, p_name = ip_name productData,
                  p_slug = ip_slug productData, p_description = ip_description productData,
                  p_price = ip_price productData,
                  p_originalPrice = inserted (ip_originalPrice productData),
                  p_image = inserted (ip_image productData),
                  p_inventory = (case ip_inventory productData of None \<Rightarrow> 0 | Some n \<Rightarrow> n),
                  p_featured = inserted_default False (ip_featured productData),
                  p_isNew = inserted_default False (ip_isNew productData),
                  p_rating = None,
                  p_supplierSku = inserted (ip_supplierSku productData),
                  p_categoryId = inserted (ip_categoryId productData)\<rparr>;
          d1 = d\<lparr>products_seq := products_seq d + 1\<rparr>
      in if slug_taken (products d) (p_slug row) \<or> sku_taken (products d) (p_supplierSku row)
         then (d1, Inl UniqueViolation)
         else
           (let d2 = d1\<lparr>products := products d @ [row]\<rparr>
            in case ip_categories productData of
                 None \<Rightarrow> (d2, Inr row)
               | Some categoryIds \<Rightarrow>
                   if categoryIds = [] then (d2, Inr row)
                   else (case insert_productCategories d2 (p_id row) categoryIds of
                           (d3, Inl e) \<Rightarrow> (d3, Inl e)
                         | (d3, Inr u) \<Rightarrow> (d3, Inr row))))"

definition update_product_row :: "PartialProduct \<Rightarrow> product \<Rightarrow> product" where
  "update_product_row productData p =
     p\<lparr>p_name := set_column (pp_name productData) (p_name p),
       p_slug := set_column (pp_slug productData) (p_slug p),
       p_description := set_column (pp_description productData) (p_description p),
       p_price := set_column (pp_price productData) (p_price p),
       p_originalPrice := set_nullable (pp_originalPrice productData) (p_originalPrice p),
       p_image := set_nullable (pp_image productData) (p_image p),
       p_inventory := set_column (pp_inventory productData) (p_inventory p),
       p_featured := set_nullable (pp_featured productData) (p_featured p),
       p_isNew := set_nullable (pp_isNew productData) (p_isNew p),
       p_supplierSku := set_nullable (pp_supplierSku productData) (p_supplierSku p),
       p_categoryId := set_nullable (pp_categoryId productData) (p_categoryId p)\<rparr>"

text \<open>\<open>updateProduct\<close>: the row update, then (when the categories are given) the
  replacement of the associations. A unique constraint is checked when the update writes
  the constrained column.\<close>

definition updateProduct :: "db \<Rightarrow> int \<Rightarrow> PartialProduct \<Rightarrow> db \<times> (db_error + product option)" where
  "updateProduct d i productData =
     (let hit = (\<lambda>p. p_id p = i);
          rows = update_where hit (update_product_row productData) (products d);
          updatedProduct = first_row (returning hit (update_product_row productData) (products d))
      in if update_collides (products d) i productData
         then (d, Inl UniqueViolation)
         else
           (let d1 = d\<lparr>products := rows\<rparr>
            in case pp_categories productData of
                 None \<Rightarrow> (d1, Inr updatedProduct)
               | Some categoryIds \<Rightarrow>
                   (let d2 = d1\<lparr>productCategories :=
                                   filter (\<lambda>r. pc_productId r \<noteq> i) (productCategories d1)\<rparr>
                    in if categoryIds = [] then (d2, Inr updatedProduct)
                       else (case insert_productCategories d2 i categoryIds of
                               (d3, Inl e) \<Rightarrow> (d3, Inl e)
                             | (d3, Inr u) \<Rightarrow> (d3, Inr updatedProduct)))))"

text \<open>\<open>syncRakutenProductsToDatabase\<close>, from the transformed products on: the fetch
  from the supplier and the transformation into \<open>dbProducts\<close> come before the loop and
  are not modelled. The loop keeps three counters; a storage call that throws is caught
  and counted as skipped. A product without a supplier SKU (absent, null or empty) is
  skipped.\<close>

record sync_counts =
  createdCount :: nat
  updatedCount :: nat
  skippedCount :: nat

definition sync_update_data :: "InsertProduct \<Rightarrow> PartialProduct" where
  "sync_update_data product =
     \<lparr>pp_name = Some (ip_name product), pp_slug = None,
      pp_description = Some (ip_description product), pp_price = Some (ip_price product),
      pp_originalPrice = ip_originalPrice product, pp_image = ip_image product,
      pp_inventory = ip_inventory product, pp_featured = Undefined, pp_isNew = Undefined,
      pp_supplierSku = Undefined, pp_categoryId = ip_categoryId product,
      pp_categories = None\<rparr>"

definition sync_product :: "db \<times> sync_counts \<Rightarrow> InsertProduct \<Rightarrow> db \<times> sync_counts" where
  "sync_product st product =
     (let d = fst st; n = snd st
      in case ip_supplierSku product of
           Val sku \<Rightarrow>
             if sku = [] then (d, n\<lparr>skippedCount := skippedCount n + 1\<rparr>)
             else
               (case getProductBySupplierSku d sku of
                  Some existingProduct \<Rightarrow>
                    (case updateProduct d (p_id existingProduct) (sync_update_data product) of
                       (d1, Inr u) \<Rightarrow> (d1, n\<lparr>updatedCount := updatedCount n + 1\<rparr>)
                     | (d1, Inl e) \<Rightarrow> (d1, n\<lparr>skippedCount := skippedCount n + 1\<rparr>))
                | None \<Rightarrow>
                    (case createProduct d product of
                       (d1, Inr p) \<Rightarrow> (d1, n\<lparr>createdCount := createdCount n + 1\<rparr>)
                     | (d1, Inl e) \<Rightarrow> (d1, n\<lparr>skippedCount := skippedCount n + 1\<rparr>)))
         | _ \<Rightarrow> (d, n\<lparr>skippedCount := skippedCount n + 1\<rparr>))"

fun sync_loop :: "db \<times> sync_counts \<Rightarrow> InsertProduct list \<Rightarrow> db \<times> sync_counts" where
  "sync_loop st [] = st"
| "sync_loop st (product # dbProducts) = sync_loop (sync_product st product) dbProducts"

definition syncRakutenProductsToDatabase :: "db \<Rightarrow> InsertProduct list \<Rightarrow> db \<times> sync_counts" where
  "syncRakutenProductsToDatabase d dbProducts =
     sync_loop (d, \<lparr>createdCount = 0, updatedCount = 0, skippedCount = 0\<rparr>) dbProducts"

subsection \<open>Address methods of DatabaseStorage\<close>

record InsertAddress =
  ia_userId :: int
  ia_addressLine1 :: string
  ia_addressLine2 :: "string nullable"
  ia_city :: string
  ia_state :: string
  ia_postalCode :: string
  ia_country :: string
  ia_isDefault :: "bool nullable"
  ia_type :: string

text \<open>\<open>Partial<Address>\<close>, as the partial insert schema of the route produces it.\<close>

record PartialAddress =
  pa_userId :: "int option"
  pa_addressLine1 :: "string option"
  pa_addressLine2 :: "string nullable"
  pa_city :: "string option"
  pa_state :: "string option"
  pa_postalCode :: "string option"
  pa_country :: "string option"
  pa_isDefault :: "bool nullable"
  pa_type :: "string option"

definition getAddresses :: "db \<Rightarrow> int \<Rightarrow> address list" where
  "getAddresses d userId = filter (\<lambda>a. a_userId a = userId) (addresses d)"

definition getAddressById :: "db \<Rightarrow> int \<Rightarrow> address option" where
  "getAddressById d i = first_row (filter (\<lambda>a. a_id a = i) (addresses d))"

definition createAddress :: "db \<Rightarrow> InsertAddress \<Rightarrow> db \<times> address" where
  "createAddress d addressData =
     (let d1 = (if truthy_nullable_bool (ia_isDefault addressData)
                then d\<lparr>addresses :=
                        update_where (\<lambda>a. a_userId a = ia_userId addressData \<and>
                                          a_type a = ia_type addressData)
                                     (\<lambda>a. a\<lparr>a_isDefault := Some False\<rparr>) (addresses d)\<rparr>
                else d);
          row = \<lparr>a_id = addresses_seq d1, a_userId = ia_userId addressData,
                  a_addressLine1 = ia_addressLine1 addressData,
                  a_addressLine2 = inserted (ia_addressLine2 addressData),
                  a_city = ia_city addressData, a_state = ia_state addressData,
                  a_postalCode = ia_postalCode addressData,
                  a_country = ia_country addressData,
                  a_isDefault = inserted_default False (ia_isDefault addressData),
                  a_type = ia_type addressData\<rparr>
      in (d1\<lparr>addresses := addresses d1 @ [row], addresses_seq := addresses_seq d1 + 1\<rparr>, row))"

definition update_address_row :: "PartialAddress \<Rightarrow> address \<Rightarrow> address" where
  "update_address_row addressData a =
     a\<lparr>a_userId := set_column (pa_userId addressData) (a_userId a),
       a_addressLine1 := set_column (pa_addressLine1 addressData) (a_addressLine1 a),
       a_addressLine2 := set_nullable (pa_addressLine2 addressData) (a_addressLine2 a),
       a_city := set_column (pa_city addressData) (a_city a),
       a_state := set_column (pa_state addressData) (a_state a),
       a_postalCode := set_column (pa_postalCode addressData) (a_postalCode a),
       a_country := set_column (pa_country addressData) (a_country a),
       a_isDefault := set_nullable (pa_isDefault addressData) (a_isDefault a),
       a_type := set_column (pa_type addressData) (a_type a)\<rparr>"

definition updateAddress :: "db \<Rightarrow> int \<Rightarrow> PartialAddress \<Rightarrow> db \<times> address option" where
  "updateAddress d i addressData =
     (let d1 = (if truthy_nullable_bool (pa_isDefault addressData)
                then (case first_row (filter (\<lambda>a. a_id a = i) (addresses d)) of
                        Some existingAddress \<Rightarrow>
                          d\<lparr>addresses :=
                              update_where (\<lambda>a. a_userId a = a_userId existingAddress \<and>
                                                a_type a = a_type existingAddress \<and> a_id a \<noteq> i)
                                           (\<lambda>a. a\<lparr>a_isDefault := Some False\<rparr>) (addresses d)\<rparr>
                      | None \<Rightarrow> d)
                else d);
          hit = (\<lambda>a. a_id a = i)
      in (d1\<lparr>addresses := update_where hit (update_address_row addressData) (addresses d1)\<rparr>,
          first_row (returning hit (update_address_row addressData) (addresses d1))))"

text \<open>PUT /api/addresses/:id; \<open>parsed\<close> is the outcome of the partial insert schema on
  the body (nothing when it throws).\<close>

definition put_address ::
  "db \<Rightarrow> request \<Rightarrow> int \<Rightarrow> PartialAddress option \<Rightarrow> db \<times> address option response" where
  "put_address d req addressId parsed =
     (case req_user req of
        None \<Rightarrow> (d, Failure 401 ''Authentication required'')
      | Some u \<Rightarrow>
          (case parsed of
             None \<Rightarrow> (d, Failure 400 ''ZodError'')
           | Some addressData \<Rightarrow>
               (case getAddressById d addressId of
                  None \<Rightarrow> (d, Failure 404 ''Address not found'')
                | Some existingAddress \<Rightarrow>
                    if a_userId existingAddress \<noteq> u_id u
                    then (d, Failure 403 ''Not authorized to update this address'')
                    else (let (d1, a) = updateAddress d addressId addressData
                          in (d1, Reply 200 a)))))"

text \<open>The invariant of the address table: for a user and a type, at most one address
  is the default one.\<close>

definition default_addresses :: "db \<Rightarrow> int \<Rightarrow> string \<Rightarrow> address list" where
  "default_addresses d userId ty =
     filter (\<lambda>a. a_userId a = userId \<and> a_type a = ty \<and> a_isDefault a = Some True) (addresses d)"

definition one_default :: "db \<Rightarrow> bool" where
  "one_default d = (\<forall>userId ty. length (default_addresses d userId ty) \<le> 1)"

subsection \<open>Referral methods of DatabaseStorage and the redeem route\<close>

definition getReferralByCode :: "db \<Rightarrow> string \<Rightarrow> referral option" where
  "getReferralByCode d code = first_row (filter (\<lambda>r. r_code r = code) (referrals d))"

text \<open>\<open>trackReferral\<close>: two statements without a transaction. The referred-users table
  has a unique constraint on the user id; when the insert violates it the method throws
  after the usage count has been incremented.\<close>

definition trackReferral :: "db \<Rightarrow> int \<Rightarrow> int \<Rightarrow> db \<times> (db_error + bool)" where
  "trackReferral d referralId userId =
     (let d1 = d\<lparr>referrals :=
                  update_where (\<lambda>r. r_id r = referralId)
                               (\<lambda>r. r\<lparr>r_usageCount := r_usageCount r + 1\<rparr>) (referrals d)\<rparr>;
          d2 = d1\<lparr>referredUsers_seq := referredUsers_seq d1 + 1\<rparr>
      in if userId \<in> set (map ru_userId (referredUsers d1))
         then (d2, Inl UniqueViolation)
         else (d2\<lparr>referredUsers := referredUsers d1 @
                     [\<lparr>ru_id = referredUsers_seq d1, ru_referralId = referralId,
                       ru_userId = userId\<rparr>]\<rparr>, Inr True))"

text \<open>POST /api/referrals/:code/redeem at the time \<open>now\<close>. An error that the storage
  throws goes to \<open>next(error)\<close>, which answers 500.\<close>

definition post_referral_redeem :: "db \<Rightarrow> int \<Rightarrow> request \<Rightarrow> string \<Rightarrow> db \<times> string response" where
  "post_referral_redeem d now req code =
     (case req_user req of
        None \<Rightarrow> (d, Failure 401 ''Authentication required'')
      | Some u \<Rightarrow>
          (case getReferralByCode d code of
             None \<Rightarrow> (d, Failure 404 ''Referral code not found'')
           | Some referral \<Rightarrow>
               if (case r_expiresAt referral of None \<Rightarrow> False | Some e \<Rightarrow> e < now)
               then (d, Failure 400 ''Referral code has expired'')
               else if (case r_maxUses referral of None \<Rightarrow> False
                        | Some m \<Rightarrow> m \<noteq> 0 \<and> r_usageCount referral \<ge> m)
               then (d, Failure 400 ''Referral code has reached maximum uses'')
               else if r_referrerId referral = u_id u
               then (d, Failure 400 ''Cannot use your own referral code'')
               else (case trackReferral d (r_id referral) (u_id u) of
                       (d1, Inl e) \<Rightarrow> (d1, Failure 500 ''Internal Server Error'')
                     | (d1, Inr ok) \<Rightarrow> (d1, Reply 200 ''Referral code successfully redeemed''))))"

subsection \<open>The payment intent route\<close>

text \<open>JavaScript's \<open>!v\<close> and \<open>typeof v\<close> on what a body property holds.\<close>

fun js_truthy :: "json option \<Rightarrow> bool" where
  "js_truthy None = False"
| "js_truthy (Some JNull) = False"
| "js_truthy (Some (JBool b)) = b"
| "js_truthy (Some (JNum x)) = (x \<noteq> 0)"
| "js_truthy (Some (JStr s)) = (s \<noteq> [])"
| "js_truthy (Some (JArr xs)) = True"
| "js_truthy (Some (JObj kvs)) = True"

fun is_number :: "json option \<Rightarrow> bool" where
  "is_number (Some (JNum x)) = True"
| "is_number _ = False"

fun number_of :: "json option \<Rightarrow> real" where
  "number_of (Some (JNum x)) = x"
| "number_of _ = 0"

text \<open>The value that JavaScript holds for a value of the body: a number is held as a
  double.\<close>

fun js_value :: "json option \<Rightarrow> json option" where
  "js_value (Some (JNum x)) = Some (JNum (to_double x))"
| "js_value v = v"

text \<open>\<open>Math.round\<close>: the nearest integer, a half rounded up. It is applied to the
  double that the product \<open>total * 100\<close> is in JavaScript.\<close>

definition Math_round :: "real \<Rightarrow> int" where
  "Math_round x = \<lfloor>x + 1 / 2\<rfloor>"

record paymentIntentParams =
  pip_amount :: int
  pip_currency :: string
  pip_payment_method_types :: "string list"
  pip_metadata_userId :: int

text \<open>The payment processor is outside the program: \<open>stripe\<close> gives the client secret
  of the intent it creates for the parameters, or nothing when the call throws. The
  route returns its response and the creation calls it has made. The amount of a call is
  an integer here: it is the amount of the program when the product \<open>total * 100\<close> is a
  finite double (\<open>Math.round\<close> of \<open>Infinity\<close> is \<open>Infinity\<close>).\<close>

definition post_create_payment_intent ::
  "(paymentIntentParams \<Rightarrow> string option) \<Rightarrow> request \<Rightarrow> string response \<times> paymentIntentParams list" where
  "post_create_payment_intent stripe req =
     (case req_user req of
        None \<Rightarrow> (Failure 401 ''Authentication required'', [])
      | Some u \<Rightarrow>
          (let total = js_value (req_body req ''total'')
           in if \<not> js_truthy total \<or> \<not> is_number total \<or> number_of total \<le> 0
              then (Failure 400 ''Valid total amount required'', [])
              else
                (let params = \<lparr>pip_amount = Math_round (js_multiply (number_of total) 100),
                                pip_currency = ''usd'',
                                pip_payment_method_types = [''card''],
                                pip_metadata_userId = u_id u\<rparr>
                 in case stripe params of
                      Some clientSecret \<Rightarrow> (Reply 200 clientSecret, [params])
                    | None \<Rightarrow> (Failure 500 ''Internal Server Error'', [params]))))"

subsection \<open>The chatbot endpoint\<close>

text \<open>\<open>toLowerCase\<close> on the letters of ASCII, and \<open>String.includes\<close>: the search for a
  substring.\<close>

definition lower_char :: "char \<Rightarrow> char" where
  "lower_char c =
     (case map_of (zip ''ABCDEFGHIJKLMNOPQRSTUVWXYZ'' ''abcdefghijklmnopqrstuvwxyz'') c of
        Some l \<Rightarrow> l
      | None \<Rightarrow> c)"

definition toLowerCase :: "string \<Rightarrow> string" where
  "toLowerCase s = map lower_char s"

fun str_includes :: "string \<Rightarrow> string \<Rightarrow> bool" where
  "str_includes [] sub = (sub = [])"
| "str_includes (c # cs) sub = (take (length sub) (c # cs) = sub \<or> str_includes cs sub)"

definition fallback_shipping :: string where
  "fallback_shipping = ''We offer free shipping on all orders over $50. Standard delivery takes 3-5 business days, while express shipping (available for an additional fee) takes 1-2 business days.''"

definition fallback_returns :: string where
  "fallback_returns = ''Our return policy allows you to return items within 30 days of delivery for a full refund. Please visit our Returns page or contact customer service for assistance.''"

definition fallback_payment :: string where
  "fallback_payment = ''We accept all major credit cards (Visa, Mastercard, American Express, Discover), PayPal, and Apple Pay for payment.''"

definition fallback_order_status :: string where
  "fallback_order_status = ''To check your order status, please log in to your account and visit the Orders section. If you need further assistance, our customer service team is available 24/7.''"

definition fallback_cart :: string where
  "fallback_cart = ''You can view your cart by clicking on the cart icon in the top right corner of the page. From there, you can modify quantities or proceed to checkout.''"

definition fallback_products :: string where
  "fallback_products = ''We have a wide selection of products across various categories. You can browse our catalog from the main shop page or use the search function to find specific items.''"

definition fallback_default :: string where
  "fallback_default = ''I'm here to help with questions about our products, shipping, returns, and more. How can I assist you today?''"

definition getFallbackResponse :: "string \<Rightarrow> string" where
  "getFallbackResponse message =
     (let promptLower = toLowerCase message
      in if str_includes promptLower ''shipping'' \<or> str_includes promptLower ''delivery''
         then fallback_shipping
         else if str_includes promptLower ''return'' \<or> str_includes promptLower ''refund''
         then fallback_returns
         else if str_includes promptLower ''payment'' \<or> str_includes promptLower ''payment method''
         then fallback_payment
         else if str_includes promptLower ''order'' \<and> str_includes promptLower ''status''
         then fallback_order_status
         else if str_includes promptLower ''cart''
         then fallback_cart
         else if str_includes promptLower ''product'' \<or> str_includes promptLower ''electronics''
         then fallback_products
         else fallback_default)"

definition getFeaturedProducts :: "db \<Rightarrow> nat \<Rightarrow> product list" where
  "getFeaturedProducts d limit = take limit (filter (\<lambda>p. p_featured p = Some True) (products d))"

text \<open>The context that the endpoint gathers on the server, and the prompt: the source
  formats the message and the two contexts into one text; the model keeps the three
  parts.\<close>

record serverContext =
  sc_user :: "user option"
  sc_orders :: "order list option"
  sc_cart :: "(cart \<times> (cartItem \<times> product) list) option"
  sc_featuredProducts :: "product list option"

record prompt =
  pr_message :: string
  pr_frontend :: json
  pr_backend :: serverContext

definition cart_context :: "db \<Rightarrow> cart option \<Rightarrow> (cart \<times> (cartItem \<times> product) list) option" where
  "cart_context d found =
     (case found of None \<Rightarrow> None | Some c \<Rightarrow> Some (c, getCartItems d (cart_id c)))"

definition gather_context :: "db \<Rightarrow> request \<Rightarrow> string \<Rightarrow> serverContext" where
  "gather_context d req message =
     (let lower = toLowerCase message;
          c0 = \<lparr>sc_user = None, sc_orders = None, sc_cart = None, sc_featuredProducts = None\<rparr>;
          c1 = (case req_user req of
                  Some u \<Rightarrow>
                    c0\<lparr>sc_user := Some u,
                       sc_orders := (if str_includes lower ''order'' \<or> str_includes lower ''purchase''
                                     then Some (getOrders d (u_id u)) else None),
                       sc_cart := (if str_includes lower ''cart''
                                   then cart_context d (getCart d (Some (u_id u)) None)
                                   else None)\<rparr>
                | None \<Rightarrow>
                    if truthy_str (req_sessionId req)
                    then c0\<lparr>sc_cart := cart_context d (getCart d None (req_sessionId req))\<rparr>
                    else c0)
      in if str_includes lower ''product'' \<or> str_includes lower ''price'' \<or>
            str_includes lower ''item'' \<or> str_includes lower ''stock''
         then c1\<lparr>sc_featuredProducts := Some (getFeaturedProducts d 4)\<rparr>
         else c1)"

definition build_prompt :: "db \<Rightarrow> request \<Rightarrow> string \<Rightarrow> prompt" where
  "build_prompt d req message =
     \<lparr>pr_message = message,
      pr_frontend = (case req_body req ''context'' of
                       None \<Rightarrow> JObj []
                     | Some c \<Rightarrow> if js_truthy (Some c) then c else JObj []),
      pr_backend = gather_context d req message\<rparr>"

text \<open>\<open>geminiModel\<close> is the completion client: nothing when no API key is configured
  or the client could not be built; otherwise a function that answers the prompt, or
  gives nothing when the call throws. A message that is truthy and not a string has no
  \<open>toLowerCase\<close>: the type error is caught by the outer handler, which answers 500.\<close>

definition post_chatbot :: "(prompt \<Rightarrow> string option) option \<Rightarrow> db \<Rightarrow> request \<Rightarrow> string response" where
  "post_chatbot geminiModel d req =
     (let message = req_body req ''message''
      in if \<not> js_truthy message then Failure 400 ''Message is required''
         else
           (case message of
              Some (JStr m) \<Rightarrow>
                (let responseText =
                       (case geminiModel of
                          Some generateContent \<Rightarrow>
                            (case generateContent (build_prompt d req m) of
                               Some t \<Rightarrow> t
                             | None \<Rightarrow> getFallbackResponse m)
                        | None \<Rightarrow> getFallbackResponse m)
                 in Reply 200 responseText)
            | _ \<Rightarrow> Failure 500 ''An error occurred while processing your request''))"

section \<open>The properties\<close>

subsection \<open>One cart-item row per cart and product\<close>

text \<open>The rows of the cart-items table are pairwise different in (cart, product). The
  operations that write the table are the four cart methods; \<open>run_cart_ops\<close> runs a
  sequence of them.\<close>


definition cart_rows_unique :: "db \<Rightarrow> bool" where
  "cart_rows_unique d = distinct (map (\<lambda>i. (ci_cartId i, ci_productId i)) (cartItems d))"

datatype cart_op =
  AddItem InsertCartItem
| UpdateQuantity int int
| RemoveItem int
| ClearCart int

fun apply_cart_op :: "db \<Rightarrow> cart_op \<Rightarrow> db" where
  "apply_cart_op d (AddItem itemData) = fst (addItemToCart d itemData)"
| "apply_cart_op d (UpdateQuantity i q) = fst (updateCartItemQuantity d i q)"
| "apply_cart_op d (RemoveItem i) = fst (removeCartItem d i)"
| "apply_cart_op d (ClearCart c) = fst (clearCart d c)"

fun run_cart_ops :: "db \<Rightarrow> cart_op list \<Rightarrow> db" where
  "run_cart_ops d [] = d"
| "run_cart_ops d (x # xs) = run_cart_ops (apply_cart_op d x) xs"

definition added_quantity :: "InsertCartItem \<Rightarrow> int" where
  "added_quantity itemData = (case ici_quantity itemData of None \<Rightarrow> 1 | Some n \<Rightarrow> n)"

text \<open>A table with one item: cart 1 holds product 7 twice.\<close>

definition db_one_item :: db where
  "db_one_item = empty_db\<lparr>cartItems := [\<lparr>ci_id = 1, ci_cartId = 1, ci_productId = 7, ci_quantity = 2\<rparr>],
      cartItems_seq := 2\<rparr>"

subsection \<open>Sample requests\<close>

text \<open>A request of a guest session without a body.\<close>

definition guest_request :: request where
  "guest_request = \<lparr>req_user = None, req_sessionId = Some ''s1'', req_body = Map.empty\<rparr>"

subsection \<open>Orders\<close>

text \<open>
  What an order item records of a purchase, and what the route is to record for an
  item of the cart: the order, the product, the name and the price of the product, and
  the quantity of the cart item.
\<close>

definition snapshot :: "orderItem \<Rightarrow> int \<times> int \<times> string \<times> real \<times> int" where
  "snapshot x = (oi_orderId x, oi_productId x, oi_name x, oi_price x, oi_quantity x)"

definition expected_snapshot :: "int \<Rightarrow> cartItem \<times> product \<Rightarrow> int \<times> int \<times> string \<times> real \<times> int" where
  "expected_snapshot oid item =
     (oid, p_id (snd item), p_name (snd item), p_price (snd item), ci_quantity (fst item))"

text \<open>
  The sum over the items of price times quantity, which the route never computes.
\<close>

definition items_total :: "orderItem list \<Rightarrow> real" where
  "items_total items = sum_list (map (\<lambda>x. oi_price x * of_int (oi_quantity x)) items)"

text \<open>
  A user with a cart that holds two mugs at 10, a request of that user for an order
  with a total of 1, and one for an order with a total of 1234567.89.
\<close>

definition sample_user :: user where
  "sample_user = \<lparr>u_id = 1, u_email = ''ann@example.com'', u_username = ''ann'', u_role = ''user''\<rparr>"

definition sample_product :: product where
  "sample_product = \<lparr>p_id = 7, p_name = ''Mug'', p_slug = ''mug'', p_description = ''A mug'',
     p_price = 10, p_originalPrice = None, p_image = None, p_inventory = 5,
     p_featured = Some False, p_isNew = Some False, p_rating = None, p_supplierSku = None,
     p_categoryId = None\<rparr>"

definition db_with_cart :: db where
  "db_with_cart = empty_db\<lparr>products := [sample_product],
      carts := [\<lparr>cart_id = 1, cart_userId = Some 1, cart_sessionId = None\<rparr>],
      cartItems := [\<lparr>ci_id = 1, ci_cartId = 1, ci_productId = 7, ci_quantity = 2\<rparr>],
      products_seq := 8, carts_seq := 2, cartItems_seq := 2\<rparr>"

definition order_request :: request where
  "order_request = \<lparr>req_user = Some sample_user, req_sessionId = Some ''s1'',
      req_body = [''total'' \<mapsto> JNum 1]\<rparr>"

definition precise_order_request :: request where
  "precise_order_request = \<lparr>req_user = Some sample_user, req_sessionId = Some ''s1'',
      req_body = [''total'' \<mapsto> JNum (123456789 / 100)]\<rparr>"

definition sample_order_data :: InsertOrder where
  "sample_order_data = \<lparr>io_userId = 1, io_total = 1, io_shippingAddressId = None,
      io_billingAddressId = None, io_paymentIntentId = None\<rparr>"

subsection \<open>Payment intents\<close>

text \<open>
  A payment processor that creates every intent, and a request of the sample user for
  an intent over 1.005.
\<close>

definition stripe_ok :: "paymentIntentParams \<Rightarrow> string option" where
  "stripe_ok params = Some ''pi_secret''"

definition payment_request :: request where
  "payment_request = \<lparr>req_user = Some sample_user, req_sessionId = Some ''s1'',
      req_body = [''total'' \<mapsto> JNum (1005 / 1000)]\<rparr>"

subsection \<open>Chatbot\<close>

text \<open>
  The seven static answers of \<open>getFallbackResponse\<close>, a chat request of the sample
  user, and a completion client whose every call throws.
\<close>

definition fallback_responses :: "string list" where
  "fallback_responses = [fallback_shipping, fallback_returns, fallback_payment,
     fallback_order_status, fallback_cart, fallback_products, fallback_default]"

definition chat_request :: request where
  "chat_request = \<lparr>req_user = Some sample_user, req_sessionId = Some ''s1'',
      req_body = [''message'' \<mapsto> JStr ''Where is my ORDER status?'']\<rparr>"

definition gemini_down :: "prompt \<Rightarrow> string option" where
  "gemini_down pr = None"

subsection \<open>Referrals\<close>

text \<open>
  A referral of user 1 that user 2 has redeemed; the same referral, unused, with a
  maximum of 0 uses; and a redeem request of a user.
\<close>

definition sample_referral :: referral where
  "sample_referral = \<lparr>r_id = 1, r_referrerId = 1, r_code = ''WELCOME'', r_usageCount = 1,
     r_maxUses = None, r_expiresAt = None\<rparr>"

definition db_referral :: db where
  "db_referral = empty_db\<lparr>referrals := [sample_referral],
      referredUsers := [\<lparr>ru_id = 1, ru_referralId = 1, ru_userId = 2\<rparr>],
      referrals_seq := 2, referredUsers_seq := 2\<rparr>"

definition db_referral_zero :: db where
  "db_referral_zero = empty_db\<lparr>referrals := [sample_referral\<lparr>r_usageCount := 0, r_maxUses := Some 0\<rparr>],
      referrals_seq := 2\<rparr>"

definition redeem_request :: "int \<Rightarrow> request" where
  "redeem_request uid = \<lparr>req_user = Some \<lparr>u_id = uid, u_email = ''bob@example.com'',
       u_username = ''bob'', u_role = ''user''\<rparr>,
     req_sessionId = Some ''s2'', req_body = Map.empty\<rparr>"

text \<open>
  The conditions of the claim on a referral: it is not past its expiry, and its usage
  count is below the maximum when a maximum is set.
\<close>

definition not_expired :: "referral \<Rightarrow> int \<Rightarrow> bool" where
  "not_expired r now = (case r_expiresAt r of None \<Rightarrow> True | Some e \<Rightarrow> \<not> e < now)"

definition below_max :: "referral \<Rightarrow> bool" where
  "below_max r = (case r_maxUses r of None \<Rightarrow> True | Some m \<Rightarrow> r_usageCount r < m)"

subsection \<open>Carts\<close>

text \<open>
  The invariant of the carts table: every cart has a user or a guest session, not
  both and not neither; a user has at most one cart, and so has a session.
\<close>

definition cart_owned :: "cart \<Rightarrow> bool" where
  "cart_owned c = ((cart_userId c \<noteq> None) \<noteq> (cart_sessionId c \<noteq> None))"

definition user_carts :: "db \<Rightarrow> int \<Rightarrow> cart list" where
  "user_carts d uid = filter (\<lambda>c. cart_userId c = Some uid) (carts d)"

definition session_carts :: "db \<Rightarrow> string \<Rightarrow> cart list" where
  "session_carts d sid = filter (\<lambda>c. cart_sessionId c = Some sid) (carts d)"

definition carts_inv :: "db \<Rightarrow> bool" where
  "carts_inv d =
     ((\<forall>c\<in>set (carts d). cart_owned c) \<and>
      (\<forall>uid. length (user_carts d uid) \<le> 1) \<and>
      (\<forall>sid. length (session_carts d sid) \<le> 1))"

text \<open>
  The cart that \<open>getCart\<close> finds for the requester of a request (by user id for a
  session user, by session id for a guest), the cart that POST /api/cart creates when it
  finds none, and the requests it can serve: one with a session user or a session id.
  A user id is a value of a serial column and so is not 0, which \<open>getCart\<close> reads as
  no user.
\<close>

definition requester_cart :: "db \<Rightarrow> request \<Rightarrow> cart option" where
  "requester_cart d req =
     (case req_user req of
        Some u \<Rightarrow> getCart d (Some (u_id u)) None
      | None \<Rightarrow> getCart d None (req_sessionId req))"

definition new_cart_of :: "db \<Rightarrow> request \<Rightarrow> cart" where
  "new_cart_of d req =
     (case req_user req of
        Some u \<Rightarrow> \<lparr>cart_id = carts_seq d, cart_userId = Some (u_id u), cart_sessionId = None\<rparr>
      | None \<Rightarrow> \<lparr>cart_id = carts_seq d, cart_userId = None, cart_sessionId = req_sessionId req\<rparr>)"

definition identified :: "request \<Rightarrow> bool" where
  "identified req = (req_user req \<noteq> None \<or> truthy_str (req_sessionId req))"

definition valid_requester :: "request \<Rightarrow> bool" where
  "valid_requester req = (case req_user req of Some u \<Rightarrow> u_id u \<noteq> 0 | None \<Rightarrow> True)"

text \<open>
  A request of the sample user that adds product 7, and a sequence of such requests.
\<close>

definition cart_request :: request where
  "cart_request = \<lparr>req_user = Some sample_user, req_sessionId = Some ''s1'',
      req_body = [''productId'' \<mapsto> JNum 7, ''quantity'' \<mapsto> JNum 1]\<rparr>"

fun run_post_cart :: "db \<Rightarrow> request list \<Rightarrow> db" where
  "run_post_cart d [] = d"
| "run_post_cart d (req # reqs) = run_post_cart (fst (post_cart d req)) reqs"

subsection \<open>Addresses\<close>

text \<open>
  Two addresses of user 1, the default shipping address and the default billing
  address, and an update that makes the second one a default shipping address.
\<close>

definition home_address :: address where
  "home_address = \<lparr>a_id = 1, a_userId = 1, a_addressLine1 = ''1 Main St'', a_addressLine2 = None,
     a_city = ''Springfield'', a_state = ''IL'', a_postalCode = ''62701'', a_country = ''US'',
     a_isDefault = Some True, a_type = ''shipping''\<rparr>"

definition office_address :: address where
  "office_address = \<lparr>a_id = 2, a_userId = 1, a_addressLine1 = ''2 Side St'', a_addressLine2 = None,
     a_city = ''Springfield'', a_state = ''IL'', a_postalCode = ''62701'', a_country = ''US'',
     a_isDefault = Some True, a_type = ''billing''\<rparr>"

definition db_addresses :: db where
  "db_addresses = empty_db\<lparr>addresses := [home_address, office_address], addresses_seq := 3\<rparr>"

definition retype_default :: PartialAddress where
  "retype_default = \<lparr>pa_userId = None, pa_addressLine1 = None, pa_addressLine2 = Undefined,
     pa_city = None, pa_state = None, pa_postalCode = None, pa_country = None,
     pa_isDefault = Val True, pa_type = Some ''shipping''\<rparr>"

definition address_request :: request where
  "address_request = \<lparr>req_user = Some sample_user, req_sessionId = Some ''s1'',
      req_body = [''type'' \<mapsto> JStr ''shipping'', ''isDefault'' \<mapsto> JBool True]\<rparr>"

subsection \<open>Catalogue sync\<close>

text \<open>
  The products table as the storage builds it: the ids are pairwise different and below
  the next value of the sequence. \<open>sku_rows\<close> are the rows with a supplier SKU.
\<close>

definition products_wf :: "db \<Rightarrow> bool" where
  "products_wf d =
     (distinct (map p_id (products d)) \<and>
      (\<forall>i\<in>set (map p_id (products d)). i < products_seq d))"

definition sku_rows :: "db \<Rightarrow> string \<Rightarrow> product list" where
  "sku_rows d sku = filter (\<lambda>p. p_supplierSku p = Some sku) (products d)"

text \<open>
  The price that a sync leaves in the row of a SKU: the price of the last fetched
  product with that SKU, or the old price when there is none.
\<close>

definition last_price :: "real \<Rightarrow> string \<Rightarrow> InsertProduct list \<Rightarrow> real" where
  "last_price old sku dbProducts =
     last (old # map ip_price (filter (\<lambda>q. ip_supplierSku q = Val sku) dbProducts))"

text \<open>
  A fetched product with the SKU shop:1001 at a price, and the row that the sync makes
  of it in the empty database.
\<close>

definition gadget :: "real \<Rightarrow> InsertProduct" where
  "gadget price = \<lparr>ip_name = ''Gadget'', ip_slug = ''gadget-shop'', ip_description = ''A gadget'',
     ip_price = price, ip_originalPrice = Undefined, ip_image = Undefined,
     ip_inventory = Some 50, ip_featured = Val False, ip_isNew = Val True,
     ip_supplierSku = Val ''shop:1001'', ip_categoryId = Val 1, ip_categories = None\<rparr>"

definition gadget_row :: "real \<Rightarrow> product" where
  "gadget_row price = \<lparr>p_id = 1, p_name = ''Gadget'', p_slug = ''gadget-shop'',
     p_description = ''A gadget'', p_price = price, p_originalPrice = None, p_image = None,
     p_inventory = 50, p_featured = Some False, p_isNew = Some True, p_rating = None,
     p_supplierSku = Some ''shop:1001'', p_categoryId = Some 1\<rparr>"

section \<open>Proofs\<close>

subsection \<open>Lists of rows\<close>

lemma first_row_filter_None: "first_row (filter P xs) = None \<longleftrightarrow> (\<forall>x\<in>set xs. \<not> P x)"
  by (induction xs) auto

lemma first_row_filter_Some: "first_row (filter P xs) = Some x \<Longrightarrow> x \<in> set xs \<and> P x"
  by (induction xs) (auto split: if_splits)

lemma map_update_where_key:
  "(\<And>r. k (f r) = k r) \<Longrightarrow> map k (update_where P f rows) = map k rows"
  by (induction rows) (auto simp: update_where_def)

subsection \<open>Adding to a cart\<close>

lemma addItemToCart_existing_rows:
  assumes "first_row (filter (\<lambda>i. ci_cartId i = ici_cartId itemData \<and>
             ci_productId i = ici_productId itemData) (cartItems d)) = Some e"
  shows "cartItems (fst (addItemToCart d itemData)) =
           map (\<lambda>i. if ci_id i = ci_id e
                     then i\<lparr>ci_quantity := ci_quantity e + added_quantity itemData\<rparr> else i)
               (cartItems d)"
    and "cartItems_seq (fst (addItemToCart d itemData)) = cartItems_seq d"
  using assms by (simp_all add: addItemToCart_def update_where_def added_quantity_def Let_def)

lemma addItemToCart_new_rows:
  assumes "first_row (filter (\<lambda>i. ci_cartId i = ici_cartId itemData \<and>
             ci_productId i = ici_productId itemData) (cartItems d)) = None"
  shows "cartItems (fst (addItemToCart d itemData)) =
           cartItems d @ [\<lparr>ci_id = cartItems_seq d, ci_cartId = ici_cartId itemData,
                           ci_productId = ici_productId itemData,
                           ci_quantity = added_quantity itemData\<rparr>]"
  using assms by (simp add: addItemToCart_def added_quantity_def Let_def)

lemma addItemToCart_unique:
  assumes "cart_rows_unique d"
  shows "cart_rows_unique (fst (addItemToCart d itemData))"
proof (cases "first_row (filter (\<lambda>i. ci_cartId i = ici_cartId itemData \<and>
             ci_productId i = ici_productId itemData) (cartItems d))")
  case None
  then have no: "\<forall>x\<in>set (cartItems d). \<not> (ci_cartId x = ici_cartId itemData \<and>
             ci_productId x = ici_productId itemData)"
    by (simp add: first_row_filter_None)
  show ?thesis
    using assms no unfolding cart_rows_unique_def addItemToCart_new_rows[OF None]
    by auto
next
  case (Some e)
  have "map (\<lambda>i. (ci_cartId i, ci_productId i)) (cartItems (fst (addItemToCart d itemData)))
        = map (\<lambda>i. (ci_cartId i, ci_productId i)) (cartItems d)"
    unfolding addItemToCart_existing_rows(1)[OF Some] by (induction "cartItems d") auto
  then show ?thesis using assms by (simp add: cart_rows_unique_def)
qed

lemma distinct_map_filter_key: "distinct (map k xs) \<Longrightarrow> distinct (map k (filter P xs))"
  by (simp add: distinct_map_filter)

lemma apply_cart_op_unique:
  "cart_rows_unique d \<Longrightarrow> cart_rows_unique (apply_cart_op d x)"
proof (cases x)
  case (AddItem itemData)
  then show "cart_rows_unique d \<Longrightarrow> ?thesis" by (simp add: addItemToCart_unique)
next
  case (UpdateQuantity i q)
  assume u: "cart_rows_unique d"
  have "map (\<lambda>i. (ci_cartId i, ci_productId i)) (cartItems (fst (updateCartItemQuantity d i q)))
        = map (\<lambda>i. (ci_cartId i, ci_productId i)) (cartItems d)"
    by (simp add: updateCartItemQuantity_def Let_def map_update_where_key)
  then show ?thesis using u UpdateQuantity by (simp add: cart_rows_unique_def)
next
  case (RemoveItem i)
  then show "cart_rows_unique d \<Longrightarrow> ?thesis"
    by (simp add: cart_rows_unique_def removeCartItem_def distinct_map_filter)
next
  case (ClearCart c)
  then show "cart_rows_unique d \<Longrightarrow> ?thesis"
    by (simp add: cart_rows_unique_def clearCart_def distinct_map_filter)
qed

lemma run_cart_ops_unique:
  "cart_rows_unique d \<Longrightarrow> cart_rows_unique (run_cart_ops d xs)"
  by (induction xs arbitrary: d) (auto simp: apply_cart_op_unique)

text \<open>
  Claim C9. When the cart already holds a row for the product, \<open>addItemToCart\<close> inserts
  no row: the table keeps its length and its ids, and the rows with the id of the existing
  row get the quantity of that row plus the added quantity (1 when none is given); every
  other row is unchanged. Hence the method keeps the rows pairwise different in
  (cart, product), and so does every sequence of cart operations from the empty table.
\<close>

theorem addItemToCart_merges_existing:
  assumes "first_row (filter (\<lambda>i. ci_cartId i = ici_cartId itemData \<and>
             ci_productId i = ici_productId itemData) (cartItems d)) = Some e"
  shows "cartItems (fst (addItemToCart d itemData)) =
           map (\<lambda>i. if ci_id i = ci_id e
                     then i\<lparr>ci_quantity := ci_quantity e + added_quantity itemData\<rparr> else i)
               (cartItems d)
       \<and> length (cartItems (fst (addItemToCart d itemData))) = length (cartItems d)
       \<and> map ci_id (cartItems (fst (addItemToCart d itemData))) = map ci_id (cartItems d)
       \<and> (cart_rows_unique d \<longrightarrow> cart_rows_unique (fst (addItemToCart d itemData)))
       \<and> cart_rows_unique (run_cart_ops empty_db ops)"
proof -
  have rows: "cartItems (fst (addItemToCart d itemData)) =
           map (\<lambda>i. if ci_id i = ci_id e
                     then i\<lparr>ci_quantity := ci_quantity e + added_quantity itemData\<rparr> else i)
               (cartItems d)"
    by (rule addItemToCart_existing_rows(1)[OF assms])
  have ids: "map ci_id (cartItems (fst (addItemToCart d itemData))) = map ci_id (cartItems d)"
    unfolding rows by (induction "cartItems d") auto
  have len: "length (cartItems (fst (addItemToCart d itemData))) = length (cartItems d)"
    unfolding rows by simp
  have e: "cart_rows_unique empty_db" by (simp add: cart_rows_unique_def empty_db_def)
  show ?thesis using rows ids len addItemToCart_unique run_cart_ops_unique[OF e] by blast
qed

theorem addItemToCart_merges_existing_witness:
  "cartItems (fst (addItemToCart db_one_item \<lparr>ici_cartId = 1, ici_productId = 7, ici_quantity = None\<rparr>))
     = [\<lparr>ci_id = 1, ci_cartId = 1, ci_productId = 7, ci_quantity = 3\<rparr>]
   \<and> cart_rows_unique (run_cart_ops empty_db
        [AddItem \<lparr>ici_cartId = 1, ici_productId = 7, ici_quantity = Some 2\<rparr>,
         AddItem \<lparr>ici_cartId = 1, ici_productId = 7, ici_quantity = None\<rparr>])"
  using addItemToCart_merges_existing[of "\<lparr>ici_cartId = 1, ici_productId = 7, ici_quantity = None\<rparr>"
      db_one_item "\<lparr>ci_id = 1, ci_cartId = 1, ci_productId = 7, ci_quantity = 2\<rparr>"
      "[AddItem \<lparr>ici_cartId = 1, ici_productId = 7, ici_quantity = Some 2\<rparr>,
         AddItem \<lparr>ici_cartId = 1, ici_productId = 7, ici_quantity = None\<rparr>]"]
  by (simp add: db_one_item_def empty_db_def added_quantity_def)

subsection \<open>Quantity updates\<close>

lemma updateCartItemQuantity_rows:
  "cartItems (fst (updateCartItemQuantity d i n)) =
     map (\<lambda>r. if ci_id r = i then r\<lparr>ci_quantity := n\<rparr> else r) (cartItems d)"
  by (simp add: updateCartItemQuantity_def update_where_def Let_def)

lemma put_cart_item_db:
  "fst (put_cart_item d req i (Some q)) =
     (if q < 1 then d else fst (updateCartItemQuantity d i q))"
  by (simp add: put_cart_item_def Let_def split: option.splits)

lemma put_cart_item_reject:
  "q < 1 \<Longrightarrow> put_cart_item d req i (Some q) = (d, Failure 400 ''Valid quantity required'')"
  by (simp add: put_cart_item_def)

lemma set_q_ids:
  "map ci_id (map (\<lambda>r. if ci_id r = i then r\<lparr>ci_quantity := n\<rparr> else r) rows) = map ci_id rows"
  by (induction rows) simp_all

text \<open>
  Claim C4, amended. A quantity update that is made through the client or through the
  route never goes below 1. The client clamps: the decrement control sends
  \<open>max 1 (quantity - 1)\<close>, which is at least 1, and is disabled at a quantity of 1 or
  less. The route does not clamp but rejects: it answers 400 to a missing quantity and to
  one below 1, leaving the tables as they are, and hands a quantity of at least 1 to the
  storage operation unchanged. Only the storage operation \<open>updateCartItemQuantity\<close>
  itself enforces no minimum: for every quantity it is given, negative ones too, it
  writes that quantity into the rows with the given id and touches nothing else.
\<close>

theorem quantity_minimum_enforcement:
  "1 \<le> decrement_request q
   \<and> decrement_request q = max 1 (q - 1)
   \<and> (q \<le> 1 \<longrightarrow> decrement_disabled busy q)
   \<and> cartItems (fst (updateCartItemQuantity d i n)) =
       map (\<lambda>r. if ci_id r = i then r\<lparr>ci_quantity := n\<rparr> else r) (cartItems d)
   \<and> map ci_id (cartItems (fst (updateCartItemQuantity d i n))) = map ci_id (cartItems d)
   \<and> put_cart_item d req i None = (d, Failure 400 ''Valid quantity required'')
   \<and> (n < 1 \<longrightarrow> put_cart_item d req i (Some n) = (d, Failure 400 ''Valid quantity required''))
   \<and> (1 \<le> n \<longrightarrow> fst (put_cart_item d req i (Some n)) = fst (updateCartItemQuantity d i n))"
proof (intro conjI)
  show "1 \<le> decrement_request q" by (simp add: decrement_request_def)
  show "decrement_request q = max 1 (q - 1)" by (simp add: decrement_request_def)
  show "q \<le> 1 \<longrightarrow> decrement_disabled busy q" by (simp add: decrement_disabled_def)
  show "cartItems (fst (updateCartItemQuantity d i n)) =
       map (\<lambda>r. if ci_id r = i then r\<lparr>ci_quantity := n\<rparr> else r) (cartItems d)"
    by (rule updateCartItemQuantity_rows)
  show "map ci_id (cartItems (fst (updateCartItemQuantity d i n))) = map ci_id (cartItems d)"
    unfolding updateCartItemQuantity_rows by (rule set_q_ids)
  show "put_cart_item d req i None = (d, Failure 400 ''Valid quantity required'')"
    by (simp add: put_cart_item_def)
  show "n < 1 \<longrightarrow> put_cart_item d req i (Some n) = (d, Failure 400 ''Valid quantity required'')"
    using put_cart_item_reject by blast
  show "1 \<le> n \<longrightarrow> fst (put_cart_item d req i (Some n)) = fst (updateCartItemQuantity d i n)"
    by (simp add: put_cart_item_db)
qed

theorem quantity_minimum_enforcement_witness:
  "decrement_request 1 = 1
   \<and> decrement_disabled False 1
   \<and> cartItems (fst (updateCartItemQuantity db_one_item 1 (- 5))) =
        [\<lparr>ci_id = 1, ci_cartId = 1, ci_productId = 7, ci_quantity = - 5\<rparr>]
   \<and> put_cart_item db_one_item guest_request 1 (Some (- 5)) =
        (db_one_item, Failure 400 ''Valid quantity required'')"
  using quantity_minimum_enforcement[of 1 False db_one_item 1 "- 5" guest_request]
  by (simp add: db_one_item_def empty_db_def)

text \<open>
  The server does enforce the minimum at the route: a request to set the quantity of the
  item to 0 is not accepted. It is answered 400 and the item keeps its quantity of 2.
\<close>

theorem quantity_update_rejected_counterexample:
  "put_cart_item db_one_item guest_request 1 (Some 0) =
     (db_one_item, Failure 400 ''Valid quantity required'')
   \<and> map ci_quantity (cartItems (fst (put_cart_item db_one_item guest_request 1 (Some 0)))) = [2]"
  by (simp add: put_cart_item_def db_one_item_def empty_db_def)

subsection \<open>Creating an order\<close>

text \<open>The equations by which the roundings of a given number are computed.\<close>

lemmas rounding_eval = to_single_def to_double_def to_ieee_def round_digits_def
  scale_up.simps scale_down.simps round_half_even_def Number_toString_def real_column_def

lemma real_column_one: "real_column (to_double 1) = 1"
  by (simp add: rounding_eval)

lemma real_column_accepts_one: "real_column_accepts (to_double 1)"
  by (simp add: real_column_accepts_def finite_double_def finite_single_def rounding_eval)

lemma real_column_precise: "real_column (to_double (123456789 / 100)) = 9876543 / 8"
  by (simp add: rounding_eval)

lemma createOrderItems_orders: "orders (createOrderItems d oid items) = orders d"
  by (induction d oid items rule: createOrderItems.induct) (simp_all add: createOrderItem_def Let_def)

lemma createOrderItems_cartItems: "cartItems (createOrderItems d oid items) = cartItems d"
  by (induction d oid items rule: createOrderItems.induct) (simp_all add: createOrderItem_def Let_def)

lemma createOrderItems_products: "products (createOrderItems d oid items) = products d"
  by (induction d oid items rule: createOrderItems.induct) (simp_all add: createOrderItem_def Let_def)

lemma createOrderItems_orderItems:
  "\<exists>news. orderItems (createOrderItems d oid items) = orderItems d @ news \<and>
          map snapshot news = map (expected_snapshot oid) items"
proof (induction d oid items rule: createOrderItems.induct)
  case (1 d orderId)
  then show ?case by simp
next
  case (2 d orderId item items)
  let ?d1 = "fst (createOrderItem d
          \<lparr>ioi_orderId = orderId, ioi_productId = p_id (snd item),
           ioi_name = p_name (snd item), ioi_price = p_price (snd item),
           ioi_quantity = ci_quantity (fst item)\<rparr>)"
  from 2 obtain news where n: "orderItems (createOrderItems ?d1 orderId items) = orderItems ?d1 @ news"
      "map snapshot news = map (expected_snapshot orderId) items"
    by blast
  obtain x where x: "orderItems ?d1 = orderItems d @ [x]" "snapshot x = expected_snapshot orderId item"
    by (simp add: createOrderItem_def Let_def snapshot_def expected_snapshot_def)
  show ?case
    by (rule exI[of _ "x # news"]) (simp add: n x)
qed

lemma createOrder_tables:
  "orders (fst (createOrder d od)) = orders d @ [snd (createOrder d od)]"
  "carts (fst (createOrder d od)) = carts d"
  "cartItems (fst (createOrder d od)) = cartItems d"
  "products (fst (createOrder d od)) = products d"
  "orderItems (fst (createOrder d od)) = orderItems d"
  "o_total (snd (createOrder d od)) = real_column (to_double (io_total od))"
  "o_id (snd (createOrder d od)) = orders_seq d"
  by (simp_all add: createOrder_def Let_def)

lemma getCart_createOrder: "getCart (fst (createOrder d od)) uid sid = getCart d uid sid"
  by (simp add: getCart_def createOrder_tables)

lemma getCartItems_createOrder: "getCartItems (fst (createOrder d od)) cid = getCartItems d cid"
  by (simp add: getCartItems_def createOrder_tables)

lemma clearCart_tables:
  "orders (fst (clearCart d cid)) = orders d"
  "orderItems (fst (clearCart d cid)) = orderItems d"
  "products (fst (clearCart d cid)) = products d"
  "cartItems (fst (clearCart d cid)) = filter (\<lambda>r. ci_cartId r \<noteq> cid) (cartItems d)"
  by (simp_all add: clearCart_def)

lemma parse_total:
  "insertOrderSchema_parse b = Some od \<Longrightarrow> b ''total'' = Some (JNum (io_total od))"
  by (auto simp: insertOrderSchema_parse_def zod_number_def split: option.splits json.splits)

lemma post_orders_no_cart:
  assumes "req_user req = Some u"
    and "insertOrderSchema_parse ((req_body req)(''userId'' \<mapsto> JNum (of_int (u_id u)))) = Some od"
    and "getCart d (Some (u_id u)) None = None"
  shows "post_orders d req =
           (fst (createOrder d od),
            Reply 201 (snd (createOrder d od),
                       getOrderItems (fst (createOrder d od)) (o_id (snd (createOrder d od)))))"
  using assms by (simp add: post_orders_def getCart_createOrder split_beta Let_def)

lemma post_orders_with_cart:
  assumes "req_user req = Some u"
    and "insertOrderSchema_parse ((req_body req)(''userId'' \<mapsto> JNum (of_int (u_id u)))) = Some od"
    and "getCart d (Some (u_id u)) None = Some c"
  shows "post_orders d req =
           (fst (clearCart (createOrderItems (fst (createOrder d od)) (o_id (snd (createOrder d od)))
                              (getCartItems d (cart_id c))) (cart_id c)),
            Reply 201 (snd (createOrder d od),
                       getOrderItems
                         (fst (clearCart (createOrderItems (fst (createOrder d od))
                                 (o_id (snd (createOrder d od))) (getCartItems d (cart_id c)))
                               (cart_id c)))
                         (o_id (snd (createOrder d od)))))"
  using assms
  by (simp add: post_orders_def getCart_createOrder getCartItems_createOrder split_beta Let_def)

lemma post_orders_orders:
  assumes "req_user req = Some u"
    and "insertOrderSchema_parse ((req_body req)(''userId'' \<mapsto> JNum (of_int (u_id u)))) = Some od"
  shows "orders (fst (post_orders d req)) = orders d @ [snd (createOrder d od)]"
    and "\<exists>items. snd (post_orders d req) = Reply 201 (snd (createOrder d od), items)"
proof -
  show "orders (fst (post_orders d req)) = orders d @ [snd (createOrder d od)]"
  proof (cases "getCart d (Some (u_id u)) None")
    case None
    show ?thesis
      by (simp add: post_orders_no_cart[OF assms None] createOrder_tables)
  next
    case (Some c)
    show ?thesis
      by (simp add: post_orders_with_cart[OF assms Some] clearCart_tables
            createOrderItems_orders createOrder_tables)
  qed
  show "\<exists>items. snd (post_orders d req) = Reply 201 (snd (createOrder d od), items)"
  proof (cases "getCart d (Some (u_id u)) None")
    case None
    show ?thesis by (simp add: post_orders_no_cart[OF assms None])
  next
    case (Some c)
    show ?thesis by (simp add: post_orders_with_cart[OF assms Some])
  qed
qed

lemma post_orders_rejected:
  "req_user req = None \<Longrightarrow> post_orders d req = (d, Failure 401 ''Authentication required'')"
  "req_user req = Some u \<Longrightarrow>
     insertOrderSchema_parse ((req_body req)(''userId'' \<mapsto> JNum (of_int (u_id u)))) = None \<Longrightarrow>
     post_orders d req = (d, Failure 400 ''ZodError'')"
  by (simp_all add: post_orders_def)

text \<open>
  Claim C2, amended. The total of an order that POST /api/orders creates is taken from
  the request body and from nothing else, but it is not stored exactly: the column
  \<open>total\<close> is a \<open>real\<close> column, and it holds the total of the body, as JavaScript holds
  it and as the driver writes it, rounded to single precision. Either the route creates
  no order (and does not answer 201), or it appends one order whose total is that
  rounding of the number under \<open>total\<close> in the body. The total is never recomputed or
  compared with the items: for every database, and so for every content of the cart, a
  request that is authenticated and passes the insert schema, that names no address and
  whose total the column accepts, is answered 201 with the rounded total of the body
  stored. The witness stores a total of 1 for items that sum to 20.
\<close>

theorem order_total_is_rounded_client_total:
  "((orders (fst (post_orders d req)) = orders d \<and> status (snd (post_orders d req)) \<noteq> 201)
    \<or> (\<exists>ord t items.
         orders (fst (post_orders d req)) = orders d @ [ord] \<and>
         snd (post_orders d req) = Reply 201 (ord, items) \<and>
         req_body req ''total'' = Some (JNum t) \<and> o_total ord = real_column (to_double t)))
   \<and> (\<forall>u od. req_user req = Some u \<longrightarrow>
         insertOrderSchema_parse ((req_body req)(''userId'' \<mapsto> JNum (of_int (u_id u)))) = Some od \<longrightarrow>
         io_shippingAddressId od = None \<longrightarrow> io_billingAddressId od = None \<longrightarrow>
         real_column_accepts (to_double (io_total od)) \<longrightarrow>
         status (snd (post_orders d req)) = 201 \<and>
         o_total (last (orders (fst (post_orders d req)))) = real_column (to_double (io_total od)))"
proof (intro conjI allI impI)
  show "(orders (fst (post_orders d req)) = orders d \<and> status (snd (post_orders d req)) \<noteq> 201)
    \<or> (\<exists>ord t items.
         orders (fst (post_orders d req)) = orders d @ [ord] \<and>
         snd (post_orders d req) = Reply 201 (ord, items) \<and>
         req_body req ''total'' = Some (JNum t) \<and> o_total ord = real_column (to_double t))"
  proof (cases "req_user req")
    case None
    then show ?thesis by (simp add: post_orders_rejected)
  next
    case (Some u)
    show ?thesis
    proof (cases "insertOrderSchema_parse ((req_body req)(''userId'' \<mapsto> JNum (of_int (u_id u))))")
      case None
      with Some show ?thesis by (simp add: post_orders_rejected)
    next
      case (Some od)
      note parse = this
      from parse_total[OF parse] have t: "req_body req ''total'' = Some (JNum (io_total od))"
        by simp
      from post_orders_orders[OF \<open>req_user req = Some u\<close> parse, of d]
      obtain items where
        o: "orders (fst (post_orders d req)) = orders d @ [snd (createOrder d od)]"
        and r: "snd (post_orders d req) = Reply 201 (snd (createOrder d od), items)"
        by blast
      have "o_total (snd (createOrder d od)) = real_column (to_double (io_total od))"
        by (simp add: createOrder_tables)
      with o r t show ?thesis by blast
    qed
  qed
next
  fix u od
  assume u: "req_user req = Some u"
    and parse: "insertOrderSchema_parse ((req_body req)(''userId'' \<mapsto> JNum (of_int (u_id u)))) = Some od"
  from post_orders_orders[OF u parse, of d]
  obtain items where
    o: "orders (fst (post_orders d req)) = orders d @ [snd (createOrder d od)]"
    and r: "snd (post_orders d req) = Reply 201 (snd (createOrder d od), items)"
    by blast
  show "status (snd (post_orders d req)) = 201" by (simp add: r)
  show "o_total (last (orders (fst (post_orders d req)))) = real_column (to_double (io_total od))"
    by (simp add: o createOrder_tables)
qed

lemma snapshot_order_id:
  "map snapshot news = map (expected_snapshot oid) items \<Longrightarrow> x \<in> set news \<Longrightarrow> oi_orderId x = oid"
proof (induction news arbitrary: items)
  case Nil
  then show ?case by simp
next
  case (Cons a news)
  then obtain i is' where items: "items = i # is'" by (cases items) auto
  with Cons.prems(1) have a: "snapshot a = expected_snapshot oid i"
    and rest: "map snapshot news = map (expected_snapshot oid) is'" by simp_all
  from a have "oi_orderId a = oid" by (simp add: snapshot_def expected_snapshot_def)
  with Cons.IH[OF rest] Cons.prems(2) show ?case by auto
qed

lemma filter_all: "(\<And>x. x \<in> set xs \<Longrightarrow> P x) \<Longrightarrow> filter P xs = xs"
  by (induction xs) auto

lemma filter_none: "(\<And>x. x \<in> set xs \<Longrightarrow> \<not> P x) \<Longrightarrow> filter P xs = []"
  by (induction xs) auto

lemma getCartItems_mem:
  "item \<in> set (getCartItems d cid) \<Longrightarrow>
     fst item \<in> set (cartItems d) \<and> ci_cartId (fst item) = cid \<and>
     snd item \<in> set (products d) \<and> p_id (snd item) = ci_productId (fst item)"
  by (auto simp: getCartItems_def)

lemma join_one:
  "(\<And>i. i \<in> set xs \<Longrightarrow> length (f i) = 1) \<Longrightarrow>
     map fst (concat (map (\<lambda>i. map (\<lambda>p. (i, p)) (f i)) xs)) = xs"
proof (induction xs)
  case Nil
  then show ?case by simp
next
  case (Cons a xs)
  from Cons.prems[of a] obtain p where p: "f a = [p]"
    by (cases "f a") auto
  from Cons show ?case by (simp add: p)
qed

lemma getCartItems_all:
  assumes "\<And>i. i \<in> set (cartItems d) \<Longrightarrow> ci_cartId i = cid \<Longrightarrow>
             length (filter (\<lambda>p. p_id p = ci_productId i) (products d)) = 1"
  shows "map fst (getCartItems d cid) = filter (\<lambda>i. ci_cartId i = cid) (cartItems d)"
  unfolding getCartItems_def
  by (rule join_one) (use assms in auto)

lemma getCartItems_cleared:
  "filter (\<lambda>i. ci_cartId i = cid) (cartItems d) = [] \<Longrightarrow> getCartItems d cid = []"
  by (simp add: getCartItems_def)

text \<open>
  Claim C1. When an authenticated user who has a cart posts a valid order, the route
  appends to the order-items table one row for each item that \<open>getCartItems\<close>
  returns for the cart, in order, and each row holds the id of the new order, the id,
  the name and the price which the product has in the database at that moment, and the
  quantity of the cart item; the products are not changed. Afterwards no cart item of the
  cart is left. The rows of the response are these new rows when no older row refers to
  the id of the new order. The joined items are items of the cart with their products,
  and they are all the items of the cart when each of them refers to exactly one product
  (the foreign key of the schema).
\<close>

theorem cart_becomes_order_items:
  assumes user: "req_user req = Some u"
    and parse: "insertOrderSchema_parse ((req_body req)(''userId'' \<mapsto> JNum (of_int (u_id u)))) = Some od"
    and cart: "getCart d (Some (u_id u)) None = Some c"
  shows "\<exists>d' ord items news.
           post_orders d req = (d', Reply 201 (ord, items))
         \<and> o_id ord = orders_seq d
         \<and> orderItems d' = orderItems d @ news
         \<and> map snapshot news = map (expected_snapshot (o_id ord)) (getCartItems d (cart_id c))
         \<and> ((\<forall>x\<in>set (orderItems d). oi_orderId x \<noteq> orders_seq d) \<longrightarrow> items = news)
         \<and> filter (\<lambda>i. ci_cartId i = cart_id c) (cartItems d') = []
         \<and> getCartItems d' (cart_id c) = []
         \<and> products d' = products d
         \<and> (\<forall>item\<in>set (getCartItems d (cart_id c)).
               fst item \<in> set (cartItems d) \<and> ci_cartId (fst item) = cart_id c \<and>
               snd item \<in> set (products d) \<and> p_id (snd item) = ci_productId (fst item))
         \<and> ((\<forall>i\<in>set (cartItems d). ci_cartId i = cart_id c \<longrightarrow>
                 length (filter (\<lambda>p. p_id p = ci_productId i) (products d)) = 1) \<longrightarrow>
               map fst (getCartItems d (cart_id c)) =
                 filter (\<lambda>i. ci_cartId i = cart_id c) (cartItems d))"
proof -
  define ord where "ord = snd (createOrder d od)"
  define d1 where "d1 = fst (createOrder d od)"
  define d2 where "d2 = createOrderItems d1 (o_id ord) (getCartItems d (cart_id c))"
  define d3 where "d3 = fst (clearCart d2 (cart_id c))"
  define items where "items = getOrderItems d3 (o_id ord)"
  have run: "post_orders d req = (d3, Reply 201 (ord, items))"
    unfolding post_orders_with_cart[OF user parse cart] d3_def d2_def d1_def ord_def items_def
    by simp
  have oid: "o_id ord = orders_seq d" by (simp add: ord_def createOrder_tables)
  from createOrderItems_orderItems[of d1 "o_id ord" "getCartItems d (cart_id c)"]
  obtain news where n1: "orderItems d2 = orderItems d1 @ news"
    and n2: "map snapshot news = map (expected_snapshot (o_id ord)) (getCartItems d (cart_id c))"
    unfolding d2_def by blast
  have oi: "orderItems d3 = orderItems d @ news"
    by (simp add: d3_def clearCart_tables n1 d1_def createOrder_tables)
  have resp: "(\<forall>x\<in>set (orderItems d). oi_orderId x \<noteq> orders_seq d) \<longrightarrow> items = news"
  proof
    assume fresh: "\<forall>x\<in>set (orderItems d). oi_orderId x \<noteq> orders_seq d"
    have a: "filter (\<lambda>r. oi_orderId r = o_id ord) (orderItems d) = []"
      by (rule filter_none) (use fresh oid in auto)
    have b: "filter (\<lambda>r. oi_orderId r = o_id ord) news = news"
      by (rule filter_all) (use snapshot_order_id[OF n2] in auto)
    show "items = news" by (simp add: items_def getOrderItems_def oi a b)
  qed
  have ci: "cartItems d3 = filter (\<lambda>r. ci_cartId r \<noteq> cart_id c) (cartItems d)"
    by (simp add: d3_def clearCart_tables d2_def createOrderItems_cartItems d1_def createOrder_tables)
  have empty: "filter (\<lambda>i. ci_cartId i = cart_id c) (cartItems d3) = []"
    unfolding ci by (rule filter_none) auto
  have empty2: "getCartItems d3 (cart_id c) = []"
    by (rule getCartItems_cleared[OF empty])
  have prods: "products d3 = products d"
    by (simp add: d3_def clearCart_tables d2_def createOrderItems_products d1_def createOrder_tables)
  have mem: "\<forall>item\<in>set (getCartItems d (cart_id c)).
               fst item \<in> set (cartItems d) \<and> ci_cartId (fst item) = cart_id c \<and>
               snd item \<in> set (products d) \<and> p_id (snd item) = ci_productId (fst item)"
    using getCartItems_mem by blast
  have all: "(\<forall>i\<in>set (cartItems d). ci_cartId i = cart_id c \<longrightarrow>
                 length (filter (\<lambda>p. p_id p = ci_productId i) (products d)) = 1) \<longrightarrow>
               map fst (getCartItems d (cart_id c)) =
                 filter (\<lambda>i. ci_cartId i = cart_id c) (cartItems d)"
    using getCartItems_all[of d "cart_id c"] by blast
  show ?thesis
    using run oid oi n2 resp empty empty2 prods mem all by blast
qed

lemma sample_parse:
  "insertOrderSchema_parse ((req_body order_request)(''userId'' \<mapsto> JNum (of_int (u_id sample_user))))
     = Some sample_order_data"
  by (simp add: insertOrderSchema_parse_def order_request_def sample_user_def sample_order_data_def
        zod_int_def zod_number_def zod_int_nullable_def zod_string_nullable_def)

lemma sample_cart:
  "getCart db_with_cart (Some (u_id sample_user)) None =
     Some \<lparr>cart_id = 1, cart_userId = Some 1, cart_sessionId = None\<rparr>"
  by (simp add: getCart_def db_with_cart_def empty_db_def sample_user_def truthy_num_def)

lemma sample_post_orders:
  "post_orders db_with_cart order_request =
     (db_with_cart\<lparr>orders := [\<lparr>o_id = 1, o_userId = 1, o_status = ''pending'', o_total = 1,
                         o_shippingAddressId = None, o_billingAddressId = None,
                         o_paymentIntentId = None, o_paymentStatus = ''pending''\<rparr>],
                    orderItems := [\<lparr>oi_id = 1, oi_orderId = 1, oi_productId = 7, oi_name = ''Mug'',
                         oi_price = 10, oi_quantity = 2\<rparr>],
                    cartItems := [], orders_seq := 2, orderItems_seq := 2\<rparr>,
      Reply 201 (\<lparr>o_id = 1, o_userId = 1, o_status = ''pending'', o_total = 1,
                         o_shippingAddressId = None, o_billingAddressId = None,
                         o_paymentIntentId = None, o_paymentStatus = ''pending''\<rparr>,
                 [\<lparr>oi_id = 1, oi_orderId = 1, oi_productId = 7, oi_name = ''Mug'',
                         oi_price = 10, oi_quantity = 2\<rparr>]))"
  unfolding post_orders_with_cart[OF _ sample_parse sample_cart, simplified order_request_def, simplified, folded order_request_def]
  by (simp add: createOrder_def sample_order_data_def db_with_cart_def empty_db_def
        getCartItems_def sample_product_def createOrderItem_def clearCart_def getOrderItems_def Let_def
        real_column_one)

theorem order_total_is_rounded_client_total_witness:
  "req_body order_request ''total'' = Some (JNum 1)
   \<and> status (snd (post_orders db_with_cart order_request)) = 201
   \<and> o_total (last (orders (fst (post_orders db_with_cart order_request)))) = 1
   \<and> items_total (getOrderItems (fst (post_orders db_with_cart order_request)) 1) = 20"
proof -
  have u: "req_user order_request = Some sample_user" by (simp add: order_request_def)
  have a: "io_shippingAddressId sample_order_data = None" "io_billingAddressId sample_order_data = None"
    by (simp_all add: sample_order_data_def)
  have t: "io_total sample_order_data = 1" by (simp add: sample_order_data_def)
  have r: "real_column_accepts (to_double (io_total sample_order_data))"
    by (simp only: t real_column_accepts_one)
  from order_total_is_rounded_client_total[of db_with_cart order_request] u sample_parse a r
  have "status (snd (post_orders db_with_cart order_request)) = 201 \<and>
        o_total (last (orders (fst (post_orders db_with_cart order_request)))) =
          real_column (to_double (io_total sample_order_data))"
    by blast
  moreover have "items_total (getOrderItems (fst (post_orders db_with_cart order_request)) 1) = 20"
    by (simp add: sample_post_orders getOrderItems_def items_total_def)
  moreover have "req_body order_request ''total'' = Some (JNum 1)"
    by (simp add: order_request_def)
  ultimately show ?thesis by (simp only: t real_column_one)
qed

text \<open>
  Without the rounding the statement fails, so the total of the body is not stored
  exactly: the sample user orders with the total 1234567.89, and the order that is
  stored and returned has the total 1234567.875, the nearest number of single precision
  (which the database prints as 1234567.9).
\<close>

theorem order_total_not_exact_counterexample:
  "req_body precise_order_request ''total'' = Some (JNum (123456789 / 100))
   \<and> status (snd (post_orders db_with_cart precise_order_request)) = 201
   \<and> o_total (last (orders (fst (post_orders db_with_cart precise_order_request)))) = 9876543 / 8
   \<and> (9876543 / 8 :: real) \<noteq> 123456789 / 100"
proof -
  have u: "req_user precise_order_request = Some sample_user"
    by (simp add: precise_order_request_def)
  have parse: "insertOrderSchema_parse
         ((req_body precise_order_request)(''userId'' \<mapsto> JNum (of_int (u_id sample_user))))
       = Some (sample_order_data\<lparr>io_total := 123456789 / 100\<rparr>)"
    by (simp add: insertOrderSchema_parse_def precise_order_request_def sample_user_def
          sample_order_data_def zod_int_def zod_number_def zod_int_nullable_def
          zod_string_nullable_def)
  from post_orders_orders[OF u parse, of db_with_cart]
  obtain items where
    o: "orders (fst (post_orders db_with_cart precise_order_request)) =
          orders db_with_cart @ [snd (createOrder db_with_cart (sample_order_data\<lparr>io_total := 123456789 / 100\<rparr>))]"
    and r: "snd (post_orders db_with_cart precise_order_request) =
          Reply 201 (snd (createOrder db_with_cart (sample_order_data\<lparr>io_total := 123456789 / 100\<rparr>)), items)"
    by blast
  have "status (snd (post_orders db_with_cart precise_order_request)) = 201" by (simp add: r)
  moreover have "o_total (last (orders (fst (post_orders db_with_cart precise_order_request)))) = 9876543 / 8"
    by (simp add: o createOrder_tables real_column_precise)
  moreover have "req_body precise_order_request ''total'' = Some (JNum (123456789 / 100))"
    by (simp add: precise_order_request_def)
  ultimately show ?thesis by simp
qed

theorem cart_becomes_order_items_witness:
  "req_user order_request = Some sample_user
   \<and> getCartItems db_with_cart 1 =
        [(\<lparr>ci_id = 1, ci_cartId = 1, ci_productId = 7, ci_quantity = 2\<rparr>, sample_product)]
   \<and> (\<exists>d' ord items.
         post_orders db_with_cart order_request = (d', Reply 201 (ord, items))
       \<and> map snapshot items = [(1, 7, ''Mug'', 10, 2)]
       \<and> getCartItems d' 1 = [])"
proof -
  have u: "req_user order_request = Some sample_user" by (simp add: order_request_def)
  have g: "getCartItems db_with_cart 1 =
        [(\<lparr>ci_id = 1, ci_cartId = 1, ci_productId = 7, ci_quantity = 2\<rparr>, sample_product)]"
    by (simp add: getCartItems_def db_with_cart_def empty_db_def sample_product_def)
  have fresh: "\<forall>x\<in>set (orderItems db_with_cart). oi_orderId x \<noteq> orders_seq db_with_cart"
    by (simp add: db_with_cart_def empty_db_def)
  from cart_becomes_order_items[OF u sample_parse sample_cart] fresh
  obtain d' ord items where
    run: "post_orders db_with_cart order_request = (d', Reply 201 (ord, items))"
    and oid: "o_id ord = orders_seq db_with_cart"
    and snap: "map snapshot items = map (expected_snapshot (o_id ord)) (getCartItems db_with_cart 1)"
    and cleared: "getCartItems d' 1 = []"
    by auto
  have "orders_seq db_with_cart = 1" by (simp add: db_with_cart_def empty_db_def)
  with oid snap g have "map snapshot items = [(1, 7, ''Mug'', 10, 2)]"
    by (simp add: expected_snapshot_def sample_product_def)
  then have "\<exists>d' ord items.
         post_orders db_with_cart order_request = (d', Reply 201 (ord, items))
       \<and> map snapshot items = [(1, 7, ''Mug'', 10, 2)]
       \<and> getCartItems d' 1 = []"
    using run cleared by (intro exI conjI)
  with u g show ?thesis by (intro conjI)
qed

subsection \<open>Creating a payment intent\<close>

lemma payment_invalid:
  "(\<not> js_truthy (js_value v) \<or> \<not> is_number (js_value v) \<or> number_of (js_value v) \<le> 0) \<longleftrightarrow>
     \<not> (\<exists>x. v = Some (JNum x) \<and> 0 < to_double x)"
proof (cases v)
  case None
  then show ?thesis by simp
next
  case (Some j)
  then show ?thesis by (cases j) auto
qed

text \<open>
  Claim C10, amended. A request without a session user is answered 401 and makes no
  creation call, whatever its body. For an authenticated request the route answers 400
  and makes no creation call exactly when the total of the body is not a number above
  zero, that is when it is missing, not a number, or not strictly positive as the double
  that JavaScript holds for it. For a total \<open>x\<close> above zero it makes one creation call,
  with the amount \<open>Math.round(total * 100)\<close>, the currency usd and the card payment
  method, and answers with the client secret when the processor returns one. The product
  is the product of doubles: the double of \<open>x\<close> times 100, rounded to a double, which the
  statement takes to be finite. For the total 1.005 the amount is 100, not 101.
\<close>

theorem payment_intent_validation:
  "(req_user req = None \<longrightarrow>
      post_create_payment_intent stripe req = (Failure 401 ''Authentication required'', []))
   \<and> (\<forall>u. req_user req = Some u \<longrightarrow>
        ((status (fst (post_create_payment_intent stripe req)) = 400 \<and>
          snd (post_create_payment_intent stripe req) = [])
         \<longleftrightarrow> \<not> (\<exists>x. req_body req ''total'' = Some (JNum x) \<and> 0 < to_double x))
      \<and> (\<forall>x. req_body req ''total'' = Some (JNum x) \<and> 0 < to_double x \<and>
               finite_double (js_multiply (to_double x) 100) \<longrightarrow>
             snd (post_create_payment_intent stripe req) =
               [\<lparr>pip_amount = Math_round (js_multiply (to_double x) 100), pip_currency = ''usd'',
                 pip_payment_method_types = [''card''], pip_metadata_userId = u_id u\<rparr>]
           \<and> (\<forall>secret. stripe \<lparr>pip_amount = Math_round (js_multiply (to_double x) 100),
                 pip_currency = ''usd'', pip_payment_method_types = [''card''],
                 pip_metadata_userId = u_id u\<rparr> = Some secret
                 \<longrightarrow> fst (post_create_payment_intent stripe req) = Reply 200 secret)))"
proof (intro conjI impI allI)
  assume "req_user req = None"
  then show "post_create_payment_intent stripe req = (Failure 401 ''Authentication required'', [])"
    by (simp add: post_create_payment_intent_def)
next
  fix u
  assume u: "req_user req = Some u"
  show "(status (fst (post_create_payment_intent stripe req)) = 400 \<and>
          snd (post_create_payment_intent stripe req) = [])
         \<longleftrightarrow> \<not> (\<exists>x. req_body req ''total'' = Some (JNum x) \<and> 0 < to_double x)"
  proof (cases "\<exists>x. req_body req ''total'' = Some (JNum x) \<and> 0 < to_double x")
    case True
    then obtain x where x: "req_body req ''total'' = Some (JNum x)" "0 < to_double x" by blast
    have "snd (post_create_payment_intent stripe req) \<noteq> []"
      using u x by (simp add: post_create_payment_intent_def Let_def split: option.splits)
    with True show ?thesis by simp
  next
    case False
    then have "\<not> js_truthy (js_value (req_body req ''total''))
        \<or> \<not> is_number (js_value (req_body req ''total''))
        \<or> number_of (js_value (req_body req ''total'')) \<le> 0"
      by (simp only: payment_invalid) simp
    then have "post_create_payment_intent stripe req = (Failure 400 ''Valid total amount required'', [])"
      using u by (simp add: post_create_payment_intent_def Let_def)
    with False show ?thesis by simp
  qed
next
  fix u x
  assume u: "req_user req = Some u"
    and x: "req_body req ''total'' = Some (JNum x) \<and> 0 < to_double x \<and>
            finite_double (js_multiply (to_double x) 100)"
  show "snd (post_create_payment_intent stripe req) =
               [\<lparr>pip_amount = Math_round (js_multiply (to_double x) 100), pip_currency = ''usd'',
                 pip_payment_method_types = [''card''], pip_metadata_userId = u_id u\<rparr>]"
    using u x by (simp add: post_create_payment_intent_def Let_def split: option.splits)
next
  fix u x secret
  assume u: "req_user req = Some u"
    and x: "req_body req ''total'' = Some (JNum x) \<and> 0 < to_double x \<and>
            finite_double (js_multiply (to_double x) 100)"
    and s: "stripe \<lparr>pip_amount = Math_round (js_multiply (to_double x) 100),
                 pip_currency = ''usd'', pip_payment_method_types = [''card''],
                 pip_metadata_userId = u_id u\<rparr> = Some secret"
  show "fst (post_create_payment_intent stripe req) = Reply 200 secret"
    using u x s by (simp add: post_create_payment_intent_def Let_def)
qed

theorem payment_intent_validation_witness:
  "req_user payment_request = Some sample_user
   \<and> req_body payment_request ''total'' = Some (JNum (1005 / 1000))
   \<and> post_create_payment_intent stripe_ok payment_request =
       (Reply 200 ''pi_secret'',
        [\<lparr>pip_amount = 100, pip_currency = ''usd'',
          pip_payment_method_types = [''card''], pip_metadata_userId = 1\<rparr>])"
proof -
  have u: "req_user payment_request = Some sample_user" by (simp add: payment_request_def)
  have b: "req_body payment_request ''total'' = Some (JNum (1005 / 1000))"
    by (simp add: payment_request_def)
  have p: "0 < to_double (1005 / 1000)"
    by (simp add: rounding_eval)
  have f: "finite_double (js_multiply (to_double (1005 / 1000)) 100)"
    by (simp add: finite_double_def js_multiply_def rounding_eval)
  have m: "Math_round (js_multiply (to_double (1005 / 1000)) 100) = 100"
    by (simp add: Math_round_def js_multiply_def rounding_eval)
  from b p f have t: "req_body payment_request ''total'' = Some (JNum (1005 / 1000)) \<and>
      0 < to_double (1005 / 1000) \<and> finite_double (js_multiply (to_double (1005 / 1000)) 100)"
    by (intro conjI)
  note inst = payment_intent_validation[of payment_request stripe_ok, THEN conjunct2, THEN spec,
      of sample_user, THEN mp, OF u, THEN conjunct2, THEN spec, of "1005 / 1000", THEN mp, OF t]
  have s: "stripe_ok \<lparr>pip_amount = Math_round (js_multiply (to_double (1005 / 1000)) 100),
             pip_currency = ''usd'', pip_payment_method_types = [''card''],
             pip_metadata_userId = u_id sample_user\<rparr> = Some ''pi_secret''"
    by (simp add: stripe_ok_def)
  have "snd (post_create_payment_intent stripe_ok payment_request) =
               [\<lparr>pip_amount = Math_round (js_multiply (to_double (1005 / 1000)) 100),
                 pip_currency = ''usd'', pip_payment_method_types = [''card''],
                 pip_metadata_userId = u_id sample_user\<rparr>]"
    and "fst (post_create_payment_intent stripe_ok payment_request) = Reply 200 ''pi_secret''"
    using inst[THEN conjunct1] inst[THEN conjunct2, THEN spec, of "''pi_secret''", THEN mp, OF s]
    by simp_all
  then have "post_create_payment_intent stripe_ok payment_request =
       (Reply 200 ''pi_secret'',
        [\<lparr>pip_amount = 100, pip_currency = ''usd'',
          pip_payment_method_types = [''card''], pip_metadata_userId = 1\<rparr>])"
    by (simp only: m prod_eq_iff) (simp add: sample_user_def)
  with u b show ?thesis by simp
qed

text \<open>
  Without the restriction to authenticated requests the statement fails: the route is
  mounted behind \<open>requireAuth\<close>, so a request without a session user and without a
  total is answered 401, not 400.
\<close>

theorem payment_intent_unauthenticated_counterexample:
  "req_body guest_request ''total'' = None
   \<and> post_create_payment_intent stripe_ok guest_request =
       (Failure 401 ''Authentication required'', [])
   \<and> status (fst (post_create_payment_intent stripe_ok guest_request)) \<noteq> 400"
  by (simp add: post_create_payment_intent_def guest_request_def)

subsection \<open>The fallback of the chatbot\<close>

lemma getFallbackResponse_static: "getFallbackResponse m \<in> set fallback_responses"
  by (simp add: getFallbackResponse_def fallback_responses_def Let_def)

lemma post_chatbot_message:
  assumes "req_body req ''message'' = Some (JStr m)" and "m \<noteq> []"
  shows "post_chatbot geminiModel d req =
           Reply 200 (case geminiModel of
                        Some generateContent \<Rightarrow>
                          (case generateContent (build_prompt d req m) of
                             Some t \<Rightarrow> t
                           | None \<Rightarrow> getFallbackResponse m)
                      | None \<Rightarrow> getFallbackResponse m)"
  using assms by (simp add: post_chatbot_def Let_def)

text \<open>
  Claim C8. For a request whose message is a non-empty string, when the completion
  client is absent or its call on the prompt of the request throws, the endpoint answers
  200 with \<open>getFallbackResponse\<close> of the message, which is one of the seven static
  texts. The reads of the store that gather the context do not fail in the model.
\<close>

theorem chatbot_falls_back:
  assumes "req_body req ''message'' = Some (JStr m)" and "m \<noteq> []"
    and "geminiModel = None \<or>
         (\<exists>generateContent. geminiModel = Some generateContent \<and>
            generateContent (build_prompt d req m) = None)"
  shows "post_chatbot geminiModel d req = Reply 200 (getFallbackResponse m)
       \<and> status (post_chatbot geminiModel d req) = 200
       \<and> getFallbackResponse m \<in> set fallback_responses"
proof -
  have "post_chatbot geminiModel d req = Reply 200 (getFallbackResponse m)"
    using assms(3) unfolding post_chatbot_message[OF assms(1,2)] by auto
  then show ?thesis by (simp add: getFallbackResponse_static)
qed

theorem chatbot_falls_back_witness:
  "post_chatbot None empty_db chat_request = Reply 200 fallback_order_status
   \<and> post_chatbot (Some gemini_down) empty_db chat_request = Reply 200 fallback_order_status"
proof -
  have m: "req_body chat_request ''message'' = Some (JStr ''Where is my ORDER status?'')"
    by (simp add: chat_request_def)
  have ne: "''Where is my ORDER status?'' \<noteq> []" by simp
  have f: "getFallbackResponse ''Where is my ORDER status?'' = fallback_order_status"
    by (simp add: getFallbackResponse_def toLowerCase_def lower_char_def)
  have a: "(None :: (prompt \<Rightarrow> string option) option) = None \<or>
         (\<exists>generateContent. None = Some generateContent \<and>
            generateContent (build_prompt empty_db chat_request ''Where is my ORDER status?'') = None)"
    by simp
  have b: "Some gemini_down = None \<or>
         (\<exists>generateContent. Some gemini_down = Some generateContent \<and>
            generateContent (build_prompt empty_db chat_request ''Where is my ORDER status?'') = None)"
    by (simp add: gemini_down_def)
  from chatbot_falls_back[OF m ne a] chatbot_falls_back[OF m ne b] f
  show ?thesis by simp
qed

subsection \<open>Redeeming a referral code\<close>

lemma first_row_update_where:
  assumes "\<And>r. P (f r) = P r"
  shows "first_row (filter P (update_where Q f rows)) =
           map_option (\<lambda>r. if Q r then f r else r) (first_row (filter P rows))"
  using assms by (induction rows) (auto simp: update_where_def)

lemma trackReferral_fresh:
  assumes "userId \<notin> set (map ru_userId (referredUsers d))"
  shows "trackReferral d referralId userId =
           (d\<lparr>referrals := update_where (\<lambda>r. r_id r = referralId)
                               (\<lambda>r. r\<lparr>r_usageCount := r_usageCount r + 1\<rparr>) (referrals d),
              referredUsers_seq := referredUsers_seq d + 1,
              referredUsers := referredUsers d @
                     [\<lparr>ru_id = referredUsers_seq d, ru_referralId = referralId,
                       ru_userId = userId\<rparr>]\<rparr>, Inr True)"
  using assms by (simp add: trackReferral_def Let_def)

lemma redeem_success:
  assumes "req_user req = Some u"
    and "getReferralByCode d code = Some r"
    and "not_expired r now" and "below_max r" and "r_referrerId r \<noteq> u_id u"
    and "u_id u \<notin> set (map ru_userId (referredUsers d))"
  shows "post_referral_redeem d now req code =
           (fst (trackReferral d (r_id r) (u_id u)), Reply 200 ''Referral code successfully redeemed'')"
  using assms
  by (auto simp: post_referral_redeem_def not_expired_def below_max_def trackReferral_fresh
           split: option.splits)

lemma redeem_failure:
  assumes "req_user req = Some u"
    and "\<not> (\<exists>r. getReferralByCode d code = Some r \<and> not_expired r now \<and> below_max r \<and>
                r_referrerId r \<noteq> u_id u)"
    and "\<forall>r. getReferralByCode d code = Some r \<longrightarrow> r_maxUses r \<noteq> Some 0"
  shows "fst (post_referral_redeem d now req code) = d \<and>
         (status (snd (post_referral_redeem d now req code)) = 400 \<or>
          status (snd (post_referral_redeem d now req code)) = 404)"
proof (cases "getReferralByCode d code")
  case None
  with assms(1) show ?thesis by (simp add: post_referral_redeem_def)
next
  case (Some r)
  with assms(2,3) have bad: "\<not> not_expired r now \<or> \<not> below_max r \<or> r_referrerId r = u_id u"
    and nz: "r_maxUses r \<noteq> Some 0" by auto
  from bad nz Some assms(1) show ?thesis
    by (auto simp: post_referral_redeem_def not_expired_def below_max_def split: option.splits)
qed

text \<open>
  Claim C7, amended. For a request of an authenticated user who has no row in the
  referred-users table, and a code whose referral (if there is one) does not have a
  maximum of 0: the redemption succeeds (200) if and only if the code exists, the
  referral is not past its expiry, its usage count is below its maximum when one is
  set, and the requester is not the referrer. On success the usage count of the
  referral is incremented by one and a referred-user row for the requester is appended;
  otherwise the answer is 400 or 404 and the database is unchanged.
\<close>

theorem referral_redeem_outcome:
  assumes user: "req_user req = Some u"
    and fresh: "u_id u \<notin> set (map ru_userId (referredUsers d))"
    and nonzero: "\<forall>r. getReferralByCode d code = Some r \<longrightarrow> r_maxUses r \<noteq> Some 0"
  shows "(status (snd (post_referral_redeem d now req code)) = 200 \<longleftrightarrow>
            (\<exists>r. getReferralByCode d code = Some r \<and> not_expired r now \<and> below_max r \<and>
                 r_referrerId r \<noteq> u_id u))
       \<and> (\<forall>r. getReferralByCode d code = Some r \<and>
                status (snd (post_referral_redeem d now req code)) = 200 \<longrightarrow>
              getReferralByCode (fst (post_referral_redeem d now req code)) code =
                Some (r\<lparr>r_usageCount := r_usageCount r + 1\<rparr>)
            \<and> referredUsers (fst (post_referral_redeem d now req code)) =
                referredUsers d @ [\<lparr>ru_id = referredUsers_seq d, ru_referralId = r_id r,
                                    ru_userId = u_id u\<rparr>])
       \<and> (status (snd (post_referral_redeem d now req code)) \<noteq> 200 \<longrightarrow>
              fst (post_referral_redeem d now req code) = d \<and>
              (status (snd (post_referral_redeem d now req code)) = 400 \<or>
               status (snd (post_referral_redeem d now req code)) = 404))"
proof (cases "\<exists>r. getReferralByCode d code = Some r \<and> not_expired r now \<and> below_max r \<and>
                 r_referrerId r \<noteq> u_id u")
  case True
  then obtain r where r: "getReferralByCode d code = Some r" "not_expired r now" "below_max r"
      "r_referrerId r \<noteq> u_id u" by blast
  note run = redeem_success[OF user r fresh]
  have st: "status (snd (post_referral_redeem d now req code)) = 200" by (simp add: run)
  have "first_row (filter (\<lambda>x. r_code x = code)
           (update_where (\<lambda>x. r_id x = r_id r) (\<lambda>x. x\<lparr>r_usageCount := r_usageCount x + 1\<rparr>)
              (referrals d))) = Some (r\<lparr>r_usageCount := r_usageCount r + 1\<rparr>)"
    using r(1) by (simp add: first_row_update_where getReferralByCode_def)
  then have look: "getReferralByCode (fst (post_referral_redeem d now req code)) code =
                Some (r\<lparr>r_usageCount := r_usageCount r + 1\<rparr>)"
    by (simp add: run trackReferral_fresh[OF fresh] getReferralByCode_def)
  have ru: "referredUsers (fst (post_referral_redeem d now req code)) =
                referredUsers d @ [\<lparr>ru_id = referredUsers_seq d, ru_referralId = r_id r,
                                    ru_userId = u_id u\<rparr>]"
    by (simp add: run trackReferral_fresh[OF fresh])
  from True st look ru r(1) show ?thesis by auto
next
  case False
  from redeem_failure[OF user False nonzero]
  have f: "fst (post_referral_redeem d now req code) = d"
    and s: "status (snd (post_referral_redeem d now req code)) = 400 \<or>
          status (snd (post_referral_redeem d now req code)) = 404"
    by simp_all
  from s have "status (snd (post_referral_redeem d now req code)) \<noteq> 200" by auto
  with False f s show ?thesis by auto
qed

theorem referral_redeem_outcome_witness:
  "req_user (redeem_request 3) \<noteq> None
   \<and> getReferralByCode db_referral ''WELCOME'' = Some sample_referral
   \<and> status (snd (post_referral_redeem db_referral 100 (redeem_request 3) ''WELCOME'')) = 200
   \<and> getReferralByCode (fst (post_referral_redeem db_referral 100 (redeem_request 3) ''WELCOME''))
         ''WELCOME'' = Some (sample_referral\<lparr>r_usageCount := 2\<rparr>)"
proof -
  let ?u = "\<lparr>u_id = 3, u_email = ''bob@example.com'', u_username = ''bob'', u_role = ''user''\<rparr>"
  have u: "req_user (redeem_request 3) = Some ?u" by (simp add: redeem_request_def)
  have fresh: "u_id ?u \<notin> set (map ru_userId (referredUsers db_referral))"
    by (simp add: db_referral_def empty_db_def)
  have look: "getReferralByCode db_referral ''WELCOME'' = Some sample_referral"
    by (simp add: getReferralByCode_def db_referral_def empty_db_def sample_referral_def)
  have nz: "\<forall>r. getReferralByCode db_referral ''WELCOME'' = Some r \<longrightarrow> r_maxUses r \<noteq> Some 0"
    by (simp add: look sample_referral_def)
  have ok: "\<exists>r. getReferralByCode db_referral ''WELCOME'' = Some r \<and> not_expired r 100 \<and>
              below_max r \<and> r_referrerId r \<noteq> u_id ?u"
    by (simp add: look not_expired_def below_max_def sample_referral_def)
  note th = referral_redeem_outcome[OF u fresh nz, of 100]
  from th ok have st: "status (snd (post_referral_redeem db_referral 100 (redeem_request 3) ''WELCOME'')) = 200"
    by blast
  from th look st
  have "getReferralByCode (fst (post_referral_redeem db_referral 100 (redeem_request 3) ''WELCOME''))
         ''WELCOME'' = Some (sample_referral\<lparr>r_usageCount := r_usageCount sample_referral + 1\<rparr>)"
    by blast
  then have "getReferralByCode (fst (post_referral_redeem db_referral 100 (redeem_request 3) ''WELCOME''))
         ''WELCOME'' = Some (sample_referral\<lparr>r_usageCount := 2\<rparr>)"
    by (simp add: sample_referral_def)
  with u look st show ?thesis by simp
qed

text \<open>
  The claim as stated fails in two ways. The referred-users table allows one row for a
  user: when user 2, who has a row, redeems a code that meets the four conditions, the
  usage count is incremented, the insert fails and the answer is 500. And the guard on
  the maximum reads a maximum of 0 as no maximum: a referral with a count of 0 and a
  maximum of 0 is redeemed.
\<close>

theorem referral_redeem_counterexample:
  "getReferralByCode db_referral ''WELCOME'' = Some sample_referral
   \<and> not_expired sample_referral 100 \<and> below_max sample_referral
   \<and> r_referrerId sample_referral \<noteq> 2
   \<and> status (snd (post_referral_redeem db_referral 100 (redeem_request 2) ''WELCOME'')) = 500
   \<and> map r_usageCount (referrals db_referral) = [1]
   \<and> map r_usageCount
         (referrals (fst (post_referral_redeem db_referral 100 (redeem_request 2) ''WELCOME''))) = [2]
   \<and> getReferralByCode db_referral_zero ''WELCOME'' =
         Some (sample_referral\<lparr>r_usageCount := 0, r_maxUses := Some 0\<rparr>)
   \<and> \<not> below_max (sample_referral\<lparr>r_usageCount := 0, r_maxUses := Some 0\<rparr>)
   \<and> status (snd (post_referral_redeem db_referral_zero 100 (redeem_request 3) ''WELCOME'')) = 200"
  by (simp add: getReferralByCode_def db_referral_def db_referral_zero_def empty_db_def
        sample_referral_def not_expired_def below_max_def post_referral_redeem_def
        redeem_request_def trackReferral_def update_where_def Let_def)

subsection \<open>One cart per user and per session\<close>

lemma addItemToCart_carts: "carts (fst (addItemToCart d x)) = carts d"
  by (simp add: addItemToCart_def Let_def split: option.splits)

lemma post_cart_carts:
  "carts (fst (post_cart d req)) =
     (if identified req \<and> requester_cart d req = None then carts d @ [new_cart_of d req]
      else carts d)"
proof (cases "req_user req")
  case None
  show ?thesis
  proof (cases "truthy_str (req_sessionId req)")
    case True
    with None show ?thesis
      by (simp add: post_cart_def identified_def requester_cart_def new_cart_of_def createCart_def
            addItemToCart_carts Let_def split: option.splits)
  next
    case False
    with None show ?thesis
      by (simp add: post_cart_def identified_def)
  qed
next
  case (Some u)
  then show ?thesis
    by (simp add: post_cart_def identified_def requester_cart_def new_cart_of_def createCart_def
          addItemToCart_carts Let_def split: option.splits)
qed

lemma getCart_user_None:
  "uid \<noteq> 0 \<Longrightarrow> getCart d (Some uid) None = None \<longleftrightarrow> user_carts d uid = []"
  by (cases "user_carts d uid") (simp_all add: getCart_def truthy_num_def user_carts_def)

lemma getCart_session_None:
  "s \<noteq> [] \<Longrightarrow> getCart d None (Some s) = None \<longleftrightarrow> session_carts d s = []"
  by (cases "session_carts d s")
     (simp_all add: getCart_def truthy_num_def truthy_str_def session_carts_def)

lemma carts_inv_append_user:
  assumes "carts_inv d" and "user_carts d uid = []" and "carts d' = carts d @ [c]"
    and "cart_userId c = Some uid" and "cart_sessionId c = None"
  shows "carts_inv d'"
proof -
  have own: "\<forall>x\<in>set (carts d'). cart_owned x"
    using assms by (auto simp: carts_inv_def cart_owned_def)
  have us: "length (user_carts d' v) \<le> 1" for v
  proof (cases "v = uid")
    case True
    then show ?thesis using assms by (simp add: user_carts_def)
  next
    case False
    then have "user_carts d' v = user_carts d v" using assms by (simp add: user_carts_def)
    then show ?thesis using assms(1) by (simp add: carts_inv_def)
  qed
  have ss: "length (session_carts d' s) \<le> 1" for s
  proof -
    have "session_carts d' s = session_carts d s" using assms by (simp add: session_carts_def)
    then show ?thesis using assms(1) by (simp add: carts_inv_def)
  qed
  show ?thesis unfolding carts_inv_def using own us ss by blast
qed

lemma carts_inv_append_session:
  assumes "carts_inv d" and "session_carts d sid = []" and "carts d' = carts d @ [c]"
    and "cart_userId c = None" and "cart_sessionId c = Some sid"
  shows "carts_inv d'"
proof -
  have own: "\<forall>x\<in>set (carts d'). cart_owned x"
    using assms by (auto simp: carts_inv_def cart_owned_def)
  have ss: "length (session_carts d' v) \<le> 1" for v
  proof (cases "v = sid")
    case True
    then show ?thesis using assms by (simp add: session_carts_def)
  next
    case False
    then have "session_carts d' v = session_carts d v" using assms by (simp add: session_carts_def)
    then show ?thesis using assms(1) by (simp add: carts_inv_def)
  qed
  have us: "length (user_carts d' u) \<le> 1" for u
  proof -
    have "user_carts d' u = user_carts d u" using assms by (simp add: user_carts_def)
    then show ?thesis using assms(1) by (simp add: carts_inv_def)
  qed
  show ?thesis unfolding carts_inv_def using own us ss by blast
qed

lemma carts_inv_same: "carts_inv d \<Longrightarrow> carts d' = carts d \<Longrightarrow> carts_inv d'"
  by (simp add: carts_inv_def user_carts_def session_carts_def)

lemma post_cart_inv:
  assumes inv: "carts_inv d" and valid: "valid_requester req"
  shows "carts_inv (fst (post_cart d req))"
proof (cases "identified req \<and> requester_cart d req = None")
  case False
  then have "carts (fst (post_cart d req)) = carts d" by (simp add: post_cart_carts)
  with inv show ?thesis by (rule carts_inv_same)
next
  case True
  then have app: "carts (fst (post_cart d req)) = carts d @ [new_cart_of d req]"
    by (simp add: post_cart_carts)
  show ?thesis
  proof (cases "req_user req")
    case (Some u)
    with valid have nz: "u_id u \<noteq> 0" by (simp add: valid_requester_def)
    from True Some have "getCart d (Some (u_id u)) None = None" by (simp add: requester_cart_def)
    with nz have none: "user_carts d (u_id u) = []" by (simp add: getCart_user_None)
    show ?thesis
      by (rule carts_inv_append_user[OF inv none app]) (simp_all add: new_cart_of_def Some)
  next
    case None
    with True obtain s where s: "req_sessionId req = Some s" "s \<noteq> []"
      by (auto simp: identified_def truthy_str_def split: option.splits)
    from True None s have "getCart d None (Some s) = None" by (simp add: requester_cart_def)
    with s have none: "session_carts d s = []" by (simp add: getCart_session_None)
    show ?thesis
      by (rule carts_inv_append_session[OF inv none app]) (simp_all add: new_cart_of_def None s)
  qed
qed

lemma run_post_cart_inv:
  "carts_inv d \<Longrightarrow> \<forall>req\<in>set reqs. valid_requester req \<Longrightarrow> carts_inv (run_post_cart d reqs)"
  by (induction reqs arbitrary: d) (simp_all add: post_cart_inv)

text \<open>
  Claim C6. POST /api/cart keeps the invariant of the carts table, for a requester whose
  user id is not 0. When \<open>getCart\<close> finds a cart for the requester the table is
  unchanged (the cart is reused); the table changes only when it finds none, and then by
  one appended cart that belongs to the requesting user alone or to the requesting
  session alone. The route is the only caller of \<open>createCart\<close>, so every table that
  such requests build from the empty one satisfies the invariant.
\<close>

theorem one_cart_per_owner:
  assumes "carts_inv d" and "valid_requester req" and "\<forall>r\<in>set reqs. valid_requester r"
  shows "carts_inv (fst (post_cart d req))
       \<and> (requester_cart d req \<noteq> None \<longrightarrow> carts (fst (post_cart d req)) = carts d)
       \<and> (carts (fst (post_cart d req)) \<noteq> carts d \<longrightarrow>
            requester_cart d req = None \<and>
            carts (fst (post_cart d req)) = carts d @ [new_cart_of d req] \<and>
            cart_owned (new_cart_of d req))
       \<and> carts_inv (run_post_cart empty_db reqs)"
proof -
  have a: "carts_inv (fst (post_cart d req))" by (rule post_cart_inv[OF assms(1,2)])
  have b: "requester_cart d req \<noteq> None \<longrightarrow> carts (fst (post_cart d req)) = carts d"
    by (simp add: post_cart_carts)
  have c: "carts (fst (post_cart d req)) \<noteq> carts d \<longrightarrow>
            requester_cart d req = None \<and>
            carts (fst (post_cart d req)) = carts d @ [new_cart_of d req] \<and>
            cart_owned (new_cart_of d req)"
    by (auto simp: post_cart_carts new_cart_of_def cart_owned_def identified_def truthy_str_def
             split: option.splits if_splits)
  have e: "carts_inv empty_db"
    by (simp add: carts_inv_def empty_db_def user_carts_def session_carts_def)
  have f: "carts_inv (run_post_cart empty_db reqs)" by (rule run_post_cart_inv[OF e assms(3)])
  show ?thesis using a b c f by blast
qed

lemma cart_request_parse:
  "insertCartItemSchema_parse ((req_body cart_request)(''cartId'' \<mapsto> JNum 1)) =
     Some \<lparr>ici_cartId = 1, ici_productId = 7, ici_quantity = Some 1\<rparr>"
  by (simp add: insertCartItemSchema_parse_def cart_request_def zod_int_def zod_int_optional_def)

lemma cart_request_first:
  "fst (post_cart empty_db cart_request) =
     empty_db\<lparr>carts := [\<lparr>cart_id = 1, cart_userId = Some 1, cart_sessionId = None\<rparr>],
              carts_seq := 2,
              cartItems := [\<lparr>ci_id = 1, ci_cartId = 1, ci_productId = 7, ci_quantity = 1\<rparr>],
              cartItems_seq := 2\<rparr>"
proof -
  have u: "req_user cart_request = Some sample_user" by (simp add: cart_request_def)
  show ?thesis
    using cart_request_parse
    by (simp add: post_cart_def u getCart_def truthy_num_def createCart_def sample_user_def
          empty_db_def addItemToCart_def Let_def)
qed

lemma cart_request_second:
  "carts (fst (post_cart (fst (post_cart empty_db cart_request)) cart_request)) =
     [\<lparr>cart_id = 1, cart_userId = Some 1, cart_sessionId = None\<rparr>]"
proof -
  have u: "req_user cart_request = Some sample_user" by (simp add: cart_request_def)
  have "requester_cart (fst (post_cart empty_db cart_request)) cart_request \<noteq> None"
    by (simp add: cart_request_first requester_cart_def u sample_user_def
          getCart_def truthy_num_def)
  then show ?thesis by (simp add: post_cart_carts cart_request_first)
qed

theorem one_cart_per_owner_witness:
  "carts_inv empty_db \<and> valid_requester cart_request
   \<and> carts (fst (post_cart empty_db cart_request)) =
        [\<lparr>cart_id = 1, cart_userId = Some 1, cart_sessionId = None\<rparr>]
   \<and> carts (run_post_cart empty_db [cart_request, cart_request]) =
        [\<lparr>cart_id = 1, cart_userId = Some 1, cart_sessionId = None\<rparr>]
   \<and> carts_inv (run_post_cart empty_db [cart_request, cart_request])"
proof -
  have e: "carts_inv empty_db"
    by (simp add: carts_inv_def empty_db_def user_carts_def session_carts_def)
  have v: "valid_requester cart_request"
    by (simp add: valid_requester_def cart_request_def sample_user_def)
  have vs: "\<forall>r\<in>set [cart_request, cart_request]. valid_requester r" using v by simp
  from one_cart_per_owner[OF e v vs]
  have i: "carts_inv (run_post_cart empty_db [cart_request, cart_request])" by blast
  have c1: "carts (fst (post_cart empty_db cart_request)) =
        [\<lparr>cart_id = 1, cart_userId = Some 1, cart_sessionId = None\<rparr>]"
    by (simp add: cart_request_first)
  have c2: "carts (run_post_cart empty_db [cart_request, cart_request]) =
        [\<lparr>cart_id = 1, cart_userId = Some 1, cart_sessionId = None\<rparr>]"
    by (simp add: cart_request_second)
  from e v c1 c2 i show ?thesis by (intro conjI)
qed

subsection \<open>One default address per user and type\<close>

lemma default_addresses_append:
  "addresses d' = addresses d @ [a] \<Longrightarrow>
   default_addresses d' u t =
     default_addresses d u t @ (if a_userId a = u \<and> a_type a = t \<and> a_isDefault a = Some True then [a] else [])"
  by (simp add: default_addresses_def)

lemma filter_unset_same:
  "filter (\<lambda>a. a_userId a = u \<and> a_type a = t \<and> a_isDefault a = Some True)
      (update_where (\<lambda>a. a_userId a = u \<and> a_type a = t) (\<lambda>a. a\<lparr>a_isDefault := Some False\<rparr>) rows) = []"
  by (induction rows) (auto simp: update_where_def)

lemma filter_unset_other:
  "(u', t') \<noteq> (u, t) \<Longrightarrow>
   filter (\<lambda>a. a_userId a = u' \<and> a_type a = t' \<and> a_isDefault a = Some True)
      (update_where (\<lambda>a. a_userId a = u \<and> a_type a = t) (\<lambda>a. a\<lparr>a_isDefault := Some False\<rparr>) rows) =
   filter (\<lambda>a. a_userId a = u' \<and> a_type a = t' \<and> a_isDefault a = Some True) rows"
  by (induction rows) (auto simp: update_where_def)

lemma createAddress_one_default:
  assumes "one_default d"
  shows "one_default (fst (createAddress d addressData))"
proof (cases "truthy_nullable_bool (ia_isDefault addressData)")
  case False
  then have nd: "inserted_default False (ia_isDefault addressData) \<noteq> Some True"
    by (cases "ia_isDefault addressData") auto
  have "default_addresses (fst (createAddress d addressData)) u t = default_addresses d u t" for u t
    using False nd by (simp add: createAddress_def Let_def default_addresses_def)
  with assms show ?thesis by (simp add: one_default_def)
next
  case True
  have "length (default_addresses (fst (createAddress d addressData)) u t) \<le> 1" for u t
  proof (cases "(u, t) = (ia_userId addressData, ia_type addressData)")
    case True
    with \<open>truthy_nullable_bool (ia_isDefault addressData)\<close> show ?thesis
      by (simp add: createAddress_def Let_def default_addresses_def filter_unset_same)
  next
    case False
    then have "default_addresses (fst (createAddress d addressData)) u t = default_addresses d u t"
      using \<open>truthy_nullable_bool (ia_isDefault addressData)\<close>
        filter_unset_other[of u t "ia_userId addressData" "ia_type addressData" "addresses d"]
      by (auto simp: createAddress_def Let_def default_addresses_def)
    with assms show ?thesis by (simp add: one_default_def)
  qed
  then show ?thesis by (simp add: one_default_def)
qed

lemma db_addresses_one_default: "one_default db_addresses"
  by (simp add: one_default_def default_addresses_def db_addresses_def home_address_def
        office_address_def)

text \<open>
  Claim C5. \<open>createAddress\<close> keeps the invariant (lemma above), \<open>updateAddress\<close>
  does not: it clears the default flag among the other addresses of the user and type
  which the row has before the update, not of the user and type which the update gives
  it. With a default shipping address 1 and a default billing address 2 of the same
  user, the update of address 2 to type shipping and default, which the route lets
  through for its owner, leaves two default shipping addresses.
\<close>

theorem updateAddress_breaks_one_default:
  "one_default db_addresses
   \<and> getAddressById db_addresses 2 = Some office_address
   \<and> put_address db_addresses address_request 2 (Some retype_default) =
       (fst (updateAddress db_addresses 2 retype_default),
        Reply 200 (Some (office_address\<lparr>a_type := ''shipping''\<rparr>)))
   \<and> default_addresses (fst (updateAddress db_addresses 2 retype_default)) 1 ''shipping'' =
       [home_address, office_address\<lparr>a_type := ''shipping''\<rparr>]
   \<and> \<not> one_default (fst (updateAddress db_addresses 2 retype_default))"
proof -
  have run: "updateAddress db_addresses 2 retype_default =
      (db_addresses\<lparr>addresses := [home_address, office_address\<lparr>a_type := ''shipping''\<rparr>]\<rparr>,
       Some (office_address\<lparr>a_type := ''shipping''\<rparr>))"
    by (simp add: updateAddress_def db_addresses_def home_address_def office_address_def
          retype_default_def update_where_def returning_def update_address_row_def Let_def)
  have look: "getAddressById db_addresses 2 = Some office_address"
    by (simp add: getAddressById_def db_addresses_def home_address_def office_address_def)
  have route: "put_address db_addresses address_request 2 (Some retype_default) =
       (fst (updateAddress db_addresses 2 retype_default),
        Reply 200 (Some (office_address\<lparr>a_type := ''shipping''\<rparr>)))"
    by (simp add: put_address_def address_request_def look run sample_user_def office_address_def)
  have two: "default_addresses (fst (updateAddress db_addresses 2 retype_default)) 1 ''shipping'' =
       [home_address, office_address\<lparr>a_type := ''shipping''\<rparr>]"
    by (simp add: run default_addresses_def home_address_def office_address_def)
  have "\<not> length (default_addresses (fst (updateAddress db_addresses 2 retype_default)) 1 ''shipping'') \<le> 1"
    by (simp add: two)
  then have broken: "\<not> one_default (fst (updateAddress db_addresses 2 retype_default))"
    unfolding one_default_def by blast
  from db_addresses_one_default look route two broken show ?thesis by (intro conjI)
qed

subsection \<open>The sync updates by supplier SKU\<close>

lemma filter_update_where:
  assumes "\<And>r. P (f r) = P r"
  shows "filter P (update_where Q f rows) = update_where Q f (filter P rows)"
  using assms by (induction rows) (auto simp: update_where_def)

lemma sync_row_keeps:
  "p_id (update_product_row (sync_update_data q) p) = p_id p"
  "p_supplierSku (update_product_row (sync_update_data q) p) = p_supplierSku p"
  "p_slug (update_product_row (sync_update_data q) p) = p_slug p"
  "p_price (update_product_row (sync_update_data q) p) = ip_price q"
  by (simp_all add: update_product_row_def sync_update_data_def)

lemma updateProduct_sync:
  "updateProduct d i (sync_update_data q) =
     (d\<lparr>products := update_where (\<lambda>p. p_id p = i) (update_product_row (sync_update_data q))
                        (products d)\<rparr>,
      Inr (first_row (returning (\<lambda>p. p_id p = i) (update_product_row (sync_update_data q))
                        (products d))))"
  by (simp add: updateProduct_def update_collides_def sync_update_data_def Let_def)

lemma insert_productCategories_products:
  "products (fst (insert_productCategories d i cs)) = products d"
  "products_seq (fst (insert_productCategories d i cs)) = products_seq d"
  by (simp_all add: insert_productCategories_def Let_def)

lemma createProduct_products:
  "products_seq (fst (createProduct d q)) = products_seq d + 1"
  "products (fst (createProduct d q)) = products d \<or>
     (\<exists>row. products (fst (createProduct d q)) = products d @ [row] \<and>
            p_id row = products_seq d \<and> p_supplierSku row = inserted (ip_supplierSku q))"
proof -
  show "products_seq (fst (createProduct d q)) = products_seq d + 1"
    by (auto simp: createProduct_def Let_def insert_productCategories_def
             split: option.splits prod.splits sum.splits if_splits)
  show "products (fst (createProduct d q)) = products d \<or>
     (\<exists>row. products (fst (createProduct d q)) = products d @ [row] \<and>
            p_id row = products_seq d \<and> p_supplierSku row = inserted (ip_supplierSku q))"
    by (auto simp: createProduct_def Let_def insert_productCategories_def
             split: option.splits prod.splits sum.splits if_splits)
qed

lemma sync_product_skip:
  "\<not> (\<exists>t. ip_supplierSku q = Val t \<and> t \<noteq> []) \<Longrightarrow> fst (sync_product st q) = fst st"
  by (cases "ip_supplierSku q") (auto simp: sync_product_def Let_def)

lemma sync_product_update:
  assumes "ip_supplierSku q = Val t" and "t \<noteq> []"
    and "getProductBySupplierSku (fst st) t = Some e"
  shows "fst (sync_product st q) =
           (fst st)\<lparr>products := update_where (\<lambda>p. p_id p = p_id e)
                        (update_product_row (sync_update_data q)) (products (fst st))\<rparr>"
  using assms by (simp add: sync_product_def Let_def updateProduct_sync)

lemma sync_product_create:
  assumes "ip_supplierSku q = Val t" and "t \<noteq> []"
    and "getProductBySupplierSku (fst st) t = None"
  shows "fst (sync_product st q) = fst (createProduct (fst st) q)"
  using assms by (simp add: sync_product_def Let_def split: prod.splits sum.splits)

lemma distinct_ids_eq:
  "distinct (map p_id rows) \<Longrightarrow> a \<in> set rows \<Longrightarrow> b \<in> set rows \<Longrightarrow> p_id a = p_id b \<Longrightarrow> a = b"
  by (meson distinct_map inj_onD)

lemma sync_product_step:
  assumes wf: "products_wf (fst st)"
    and look: "getProductBySupplierSku (fst st) s = Some r"
    and s: "s \<noteq> []"
  shows "products_wf (fst (sync_product st q))
       \<and> map p_id (sku_rows (fst (sync_product st q)) s) = map p_id (sku_rows (fst st) s)
       \<and> (\<exists>r'. getProductBySupplierSku (fst (sync_product st q)) s = Some r' \<and>
                p_id r' = p_id r \<and>
                p_price r' = (if ip_supplierSku q = Val s then ip_price q else p_price r))"
proof (cases "\<exists>t. ip_supplierSku q = Val t \<and> t \<noteq> []")
  case False
  then have same: "fst (sync_product st q) = fst st" by (rule sync_product_skip)
  from False s have "ip_supplierSku q \<noteq> Val s" by auto
  with same wf look show ?thesis by simp
next
  case True
  then obtain t where t: "ip_supplierSku q = Val t" "t \<noteq> []" by blast
  let ?d = "fst st"
  let ?f = "update_product_row (sync_update_data q)"
  from look have r_in: "r \<in> set (products ?d)" and r_sku: "p_supplierSku r = Some s"
    using first_row_filter_Some[of "\<lambda>p. p_supplierSku p = Some s" "products ?d" r]
    by (simp_all add: getProductBySupplierSku_def)
  show ?thesis
  proof (cases "getProductBySupplierSku ?d t")
    case (Some e)
    let ?rows = "update_where (\<lambda>p. p_id p = p_id e) ?f (products ?d)"
    have d': "fst (sync_product st q) = ?d\<lparr>products := ?rows\<rparr>"
      by (rule sync_product_update[OF t Some])
    from Some have e_in: "e \<in> set (products ?d)" and e_sku: "p_supplierSku e = Some t"
      using first_row_filter_Some[of "\<lambda>p. p_supplierSku p = Some t" "products ?d" e]
      by (simp_all add: getProductBySupplierSku_def)
    have ids: "map p_id ?rows = map p_id (products ?d)"
      by (rule map_update_where_key) (simp add: sync_row_keeps)
    have wf': "products_wf (fst (sync_product st q))"
      using wf by (simp add: d' products_wf_def ids)
    have rows: "sku_rows (fst (sync_product st q)) s =
                  update_where (\<lambda>p. p_id p = p_id e) ?f (sku_rows ?d s)"
      by (simp add: d' sku_rows_def filter_update_where sync_row_keeps)
    have ids': "map p_id (sku_rows (fst (sync_product st q)) s) = map p_id (sku_rows ?d s)"
      unfolding rows by (rule map_update_where_key) (simp add: sync_row_keeps)
    have look': "getProductBySupplierSku (fst (sync_product st q)) s =
                   Some (if p_id r = p_id e then ?f r else r)"
      using look
      by (simp add: d' getProductBySupplierSku_def first_row_update_where sync_row_keeps)
    have price: "p_price (if p_id r = p_id e then ?f r else r) =
                   (if ip_supplierSku q = Val s then ip_price q else p_price r)"
    proof (cases "t = s")
      case True
      with Some look have "e = r" by simp
      with True t show ?thesis by (simp add: sync_row_keeps)
    next
      case False
      with e_sku r_sku have "e \<noteq> r" by auto
      with distinct_ids_eq[OF _ r_in e_in] wf have "p_id r \<noteq> p_id e"
        by (auto simp: products_wf_def)
      with False t show ?thesis by simp
    qed
    have "p_id (if p_id r = p_id e then ?f r else r) = p_id r" by (simp add: sync_row_keeps)
    with wf' ids' look' price show ?thesis by blast
  next
    case None
    have d': "fst (sync_product st q) = fst (createProduct ?d q)"
      by (rule sync_product_create[OF t None])
    from None look have ts: "t \<noteq> s" by auto
    from t ts have qs: "ip_supplierSku q \<noteq> Val s" by simp
    have seq: "products_seq (fst (createProduct ?d q)) = products_seq ?d + 1"
      by (rule createProduct_products(1))
    from createProduct_products(2)[of ?d q]
    show ?thesis
    proof
      assume same: "products (fst (createProduct ?d q)) = products ?d"
      have "products_wf (fst (createProduct ?d q))"
        using wf by (auto simp: products_wf_def same seq)
      moreover have "sku_rows (fst (createProduct ?d q)) s = sku_rows ?d s"
        by (simp add: sku_rows_def same)
      moreover have "getProductBySupplierSku (fst (createProduct ?d q)) s = Some r"
        using look by (simp add: getProductBySupplierSku_def same)
      ultimately show ?thesis using qs by (simp add: d')
    next
      assume "\<exists>row. products (fst (createProduct ?d q)) = products ?d @ [row] \<and>
            p_id row = products_seq ?d \<and> p_supplierSku row = inserted (ip_supplierSku q)"
      then obtain row where app: "products (fst (createProduct ?d q)) = products ?d @ [row]"
        and rid: "p_id row = products_seq ?d"
        and rsku: "p_supplierSku row = inserted (ip_supplierSku q)" by blast
      from rsku t ts have other: "p_supplierSku row \<noteq> Some s" by simp
      have fresh: "p_id row \<notin> set (map p_id (products ?d))"
        using wf rid by (auto simp: products_wf_def)
      have "products_wf (fst (createProduct ?d q))"
        using wf fresh rid by (auto simp: products_wf_def app seq)
      moreover have "sku_rows (fst (createProduct ?d q)) s = sku_rows ?d s"
        using other by (simp add: sku_rows_def app)
      moreover have "getProductBySupplierSku (fst (createProduct ?d q)) s = Some r"
        using look other by (simp add: getProductBySupplierSku_def app)
      ultimately show ?thesis using qs by (simp add: d')
    qed
  qed
qed

lemma sync_loop_keeps:
  assumes "products_wf (fst st)"
    and "getProductBySupplierSku (fst st) s = Some r"
    and "s \<noteq> []"
  shows "products_wf (fst (sync_loop st dbProducts))
       \<and> map p_id (sku_rows (fst (sync_loop st dbProducts)) s) = map p_id (sku_rows (fst st) s)
       \<and> (\<exists>r'. getProductBySupplierSku (fst (sync_loop st dbProducts)) s = Some r' \<and>
                p_id r' = p_id r \<and> p_price r' = last_price (p_price r) s dbProducts)"
  using assms
proof (induction dbProducts arbitrary: st r)
  case Nil
  then show ?case by (simp add: last_price_def)
next
  case (Cons q qs)
  from sync_product_step[OF Cons.prems, of q]
  obtain r1 where wf1: "products_wf (fst (sync_product st q))"
    and ids1: "map p_id (sku_rows (fst (sync_product st q)) s) = map p_id (sku_rows (fst st) s)"
    and look1: "getProductBySupplierSku (fst (sync_product st q)) s = Some r1"
    and id1: "p_id r1 = p_id r"
    and price1: "p_price r1 = (if ip_supplierSku q = Val s then ip_price q else p_price r)"
    by blast
  from Cons.IH[OF wf1 look1 Cons.prems(3)]
  obtain r2 where wf2: "products_wf (fst (sync_loop (sync_product st q) qs))"
    and ids2: "map p_id (sku_rows (fst (sync_loop (sync_product st q) qs)) s) =
               map p_id (sku_rows (fst (sync_product st q)) s)"
    and look2: "getProductBySupplierSku (fst (sync_loop (sync_product st q) qs)) s = Some r2"
    and id2: "p_id r2 = p_id r1"
    and price2: "p_price r2 = last_price (p_price r1) s qs"
    by blast
  have "last_price (p_price r1) s qs = last_price (p_price r) s (q # qs)"
    by (simp add: last_price_def price1)
  with wf2 ids1 ids2 look2 id1 id2 price2 show ?case by simp
qed

lemma last_price_member:
  assumes "q \<in> set dbProducts" and "ip_supplierSku q = Val sku"
  shows "last_price old sku dbProducts =
           ip_price (last (filter (\<lambda>q. ip_supplierSku q = Val sku) dbProducts))"
proof -
  from assms have "filter (\<lambda>q. ip_supplierSku q = Val sku) dbProducts \<noteq> []"
    by (auto simp: filter_empty_conv)
  then show ?thesis by (simp add: last_price_def last_map)
qed

text \<open>
  Claim C3. Let the products table hold a row with the supplier SKU (as a sync run
  inserts it: the SKU is not empty), and let the fetched products of a sync run contain
  that SKU. Then the run inserts no row with that SKU: the rows with the SKU are the
  same rows, by id and number, as before. The row that \<open>getProductBySupplierSku\<close>
  finds for the SKU keeps its id and has the price of the last fetched product with that
  SKU. The witness runs the sync twice from the empty database: the first run creates
  the row at price 10, the second updates it to 12, and the table has one row.
\<close>

theorem sync_updates_row_of_sku:
  assumes "products_wf d"
    and "getProductBySupplierSku d sku = Some r"
    and "sku \<noteq> []"
    and "q \<in> set dbProducts" and "ip_supplierSku q = Val sku"
  shows "map p_id (sku_rows (fst (syncRakutenProductsToDatabase d dbProducts)) sku) = map p_id (sku_rows d sku)
       \<and> length (sku_rows (fst (syncRakutenProductsToDatabase d dbProducts)) sku) = length (sku_rows d sku)
       \<and> (\<exists>r'. getProductBySupplierSku (fst (syncRakutenProductsToDatabase d dbProducts)) sku = Some r' \<and>
                p_id r' = p_id r \<and>
                p_price r' = ip_price (last (filter (\<lambda>q. ip_supplierSku q = Val sku) dbProducts)))
       \<and> products_wf (fst (syncRakutenProductsToDatabase d dbProducts))"
proof -
  let ?st = "(d, \<lparr>createdCount = 0, updatedCount = 0, skippedCount = 0\<rparr>)"
  from sync_loop_keeps[of ?st sku r dbProducts] assms(1-3)
  obtain r' where wf: "products_wf (fst (sync_loop ?st dbProducts))"
    and ids: "map p_id (sku_rows (fst (sync_loop ?st dbProducts)) sku) = map p_id (sku_rows d sku)"
    and look: "getProductBySupplierSku (fst (sync_loop ?st dbProducts)) sku = Some r'"
    and rid: "p_id r' = p_id r"
    and price: "p_price r' = last_price (p_price r) sku dbProducts"
    by auto
  from ids have len: "length (sku_rows (fst (sync_loop ?st dbProducts)) sku) = length (sku_rows d sku)"
    by (metis length_map)
  from price have price': "p_price r' = ip_price (last (filter (\<lambda>q. ip_supplierSku q = Val sku) dbProducts))"
    by (simp add: last_price_member[OF assms(4,5)])
  from wf ids len look rid price' show ?thesis
    by (simp add: syncRakutenProductsToDatabase_def)
qed

lemma first_sync:
  "syncRakutenProductsToDatabase empty_db [gadget 10] =
     (empty_db\<lparr>products := [gadget_row 10], products_seq := 2\<rparr>,
      \<lparr>createdCount = 1, updatedCount = 0, skippedCount = 0\<rparr>)"
  by (simp add: syncRakutenProductsToDatabase_def sync_product_def gadget_def gadget_row_def
        getProductBySupplierSku_def createProduct_def slug_taken_def sku_taken_def
        empty_db_def Let_def)

lemma second_sync:
  "syncRakutenProductsToDatabase (fst (syncRakutenProductsToDatabase empty_db [gadget 10])) [gadget 12] =
     (empty_db\<lparr>products := [gadget_row 12], products_seq := 2\<rparr>,
      \<lparr>createdCount = 0, updatedCount = 1, skippedCount = 0\<rparr>)"
  unfolding first_sync
  by (simp add: syncRakutenProductsToDatabase_def sync_product_def gadget_def gadget_row_def
        getProductBySupplierSku_def updateProduct_def update_collides_def update_where_def
        returning_def update_product_row_def sync_update_data_def empty_db_def Let_def)

theorem sync_updates_row_of_sku_witness:
  "products_wf (fst (syncRakutenProductsToDatabase empty_db [gadget 10]))
   \<and> getProductBySupplierSku (fst (syncRakutenProductsToDatabase empty_db [gadget 10])) ''shop:1001''
        = Some (gadget_row 10)
   \<and> products (fst (syncRakutenProductsToDatabase (fst (syncRakutenProductsToDatabase empty_db [gadget 10]))
                      [gadget 12])) = [gadget_row 12]
   \<and> p_id (gadget_row 12) = p_id (gadget_row 10) \<and> p_price (gadget_row 12) = 12
   \<and> length (sku_rows (fst (syncRakutenProductsToDatabase
                 (fst (syncRakutenProductsToDatabase empty_db [gadget 10])) [gadget 12])) ''shop:1001'') = 1"
proof -
  let ?d1 = "fst (syncRakutenProductsToDatabase empty_db [gadget 10])"
  have wf: "products_wf ?d1" by (simp add: first_sync products_wf_def gadget_row_def)
  have look: "getProductBySupplierSku ?d1 ''shop:1001'' = Some (gadget_row 10)"
    by (simp add: first_sync getProductBySupplierSku_def gadget_row_def)
  have ne: "''shop:1001'' \<noteq> []" by simp
  have q: "gadget 12 \<in> set [gadget 12]" by simp
  have qs: "ip_supplierSku (gadget 12) = Val ''shop:1001''" by (simp add: gadget_def)
  have one: "length (sku_rows ?d1 ''shop:1001'') = 1"
    by (simp add: first_sync sku_rows_def gadget_row_def)
  from sync_updates_row_of_sku[OF wf look ne q qs] one
  have len: "length (sku_rows (fst (syncRakutenProductsToDatabase ?d1 [gadget 12])) ''shop:1001'') = 1"
    by simp
  have rows: "products (fst (syncRakutenProductsToDatabase ?d1 [gadget 12])) = [gadget_row 12]"
    by (simp add: second_sync)
  have ids: "p_id (gadget_row 12) = p_id (gadget_row 10) \<and> p_price (gadget_row 12) = 12"
    by (simp add: gadget_row_def)
  from wf look rows ids len show ?thesis by (intro conjI) simp_all
qed


end
